theory Spec2Isabelle
  imports Complex_Main "HOL-Library.AList"
begin

section \<open>Vectors of the host's math library\<close>

text \<open>
  A \<^verbatim>\<open>mathutils.Vector\<close> of three coordinates. The host stores single-precision
  floats; the model computes over the reals, so every statement below is about the exact
  geometry the code describes, not about rounding.
\<close>

datatype vec = Vector (vx: real) (vy: real) (vz: real)

fun vadd :: "vec \<Rightarrow> vec \<Rightarrow> vec" where
  "vadd (Vector a b c) (Vector x y z) = Vector (a + x) (b + y) (c + z)"

fun vsub :: "vec \<Rightarrow> vec \<Rightarrow> vec" where
  "vsub (Vector a b c) (Vector x y z) = Vector (a - x) (b - y) (c - z)"

fun vscale :: "real \<Rightarrow> vec \<Rightarrow> vec" where
  "vscale k (Vector x y z) = Vector (k * x) (k * y) (k * z)"

fun dot :: "vec \<Rightarrow> vec \<Rightarrow> real" where
  "dot (Vector a b c) (Vector x y z) = a * x + b * y + c * z"

fun cross :: "vec \<Rightarrow> vec \<Rightarrow> vec" where
  "cross (Vector a b c) (Vector x y z) = Vector (b * z - c * y) (c * x - a * z) (a * y - b * x)"

definition vlength :: "vec \<Rightarrow> real" where
  "vlength v = sqrt (dot v v)"

section \<open>Profile generator\<close>

text \<open>
  The exceptions of the model: \<^verbatim>\<open>ValueError\<close>, raised by the generator and by the
  host when it refuses a face, and \<^verbatim>\<open>RuntimeError\<close>, raised by a host operator that
  fails.
\<close>

datatype error = ValueError string | RuntimeError string

text \<open>
  \<^verbatim>\<open>create_profile\<close> of \<^verbatim>\<open>profiled_wireframe.py\<close>. \<^verbatim>\<open>range(segments)\<close> is
  \<open>[0..<nat segments]\<close>: empty for a non-positive count, so the division by
  \<^verbatim>\<open>segments\<close> is never reached with a zero divisor.
\<close>

definition create_profile :: "string \<Rightarrow> real \<Rightarrow> int \<Rightarrow> error + vec list" where
  "create_profile shape_type psize segments =
     (if shape_type = ''SQUARE'' then
        Inr [Vector (- psize) (- psize) 0, Vector psize (- psize) 0,
             Vector psize psize 0, Vector (- psize) psize 0]
      else if shape_type = ''ROUND'' then
        Inr (map (\<lambda>i. Vector (cos (real i * 2 * pi / real_of_int segments) * psize)
                             (sin (real i * 2 * pi / real_of_int segments) * psize) 0)
                 [0..<nat segments])
      else if shape_type = ''TRIANGLE'' then
        Inr [Vector 0 psize 0, Vector (- psize) (- psize) 0, Vector psize (- psize) 0]
      else Inl (ValueError ''Unsupported profile type''))"

text \<open>
  \<^verbatim>\<open>create_profile\<close> of \<^verbatim>\<open>custom_wireframe_with_profiles.py\<close>: the same square and
  round arms, and no triangle arm.
\<close>

definition cwp_create_profile :: "string \<Rightarrow> real \<Rightarrow> int \<Rightarrow> error + vec list" where
  "cwp_create_profile shape_type psize segments =
     (if shape_type = ''SQUARE'' then
        Inr [Vector (- psize) (- psize) 0, Vector psize (- psize) 0,
             Vector psize psize 0, Vector (- psize) psize 0]
      else if shape_type = ''ROUND'' then
        Inr (map (\<lambda>i. Vector (cos (real i * 2 * pi / real_of_int segments) * psize)
                             (sin (real i * 2 * pi / real_of_int segments) * psize) 0)
                 [0..<nat segments])
      else Inl (ValueError ''Unsupported profile type''))"

section \<open>Matrices of the host's math library\<close>

text \<open>A 3x3 matrix, by rows.\<close>

datatype mat3 = Mat3 (row1: vec) (row2: vec) (row3: vec)

definition identity3 :: mat3 where
  "identity3 = Mat3 (Vector 1 0 0) (Vector 0 1 0) (Vector 0 0 1)"

fun mat3_add :: "mat3 \<Rightarrow> mat3 \<Rightarrow> mat3" where
  "mat3_add (Mat3 a b c) (Mat3 x y z) = Mat3 (vadd a x) (vadd b y) (vadd c z)"

fun mat3_scale :: "real \<Rightarrow> mat3 \<Rightarrow> mat3" where
  "mat3_scale k (Mat3 a b c) = Mat3 (vscale k a) (vscale k b) (vscale k c)"

fun mat3_vec :: "mat3 \<Rightarrow> vec \<Rightarrow> vec" where
  "mat3_vec (Mat3 r1 r2 r3) v = Vector (dot r1 v) (dot r2 v) (dot r3 v)"

fun transpose3 :: "mat3 \<Rightarrow> mat3" where
  "transpose3 (Mat3 (Vector a b c) (Vector d e f) (Vector g h i)) =
     Mat3 (Vector a d g) (Vector b e h) (Vector c f i)"

fun mat3_mul :: "mat3 \<Rightarrow> mat3 \<Rightarrow> mat3" where
  "mat3_mul (Mat3 r1 r2 r3) m =
     Mat3 (mat3_vec (transpose3 m) r1) (mat3_vec (transpose3 m) r2) (mat3_vec (transpose3 m) r3)"

text \<open>The matrix of \<open>v \<mapsto> w \<times> v\<close>, and the matrix \<open>o o\<^sup>T\<close>.\<close>

fun skew :: "vec \<Rightarrow> mat3" where
  "skew (Vector x y z) = Mat3 (Vector 0 (- z) y) (Vector z 0 (- x)) (Vector (- y) x 0)"

fun outer :: "vec \<Rightarrow> mat3" where
  "outer (Vector x y z) =
     Mat3 (vscale x (Vector x y z)) (vscale y (Vector x y z)) (vscale z (Vector x y z))"

text \<open>
  A 4x4 matrix whose last row is \<open>(0, 0, 0, 1)\<close>: a linear part and a translation column.
  Every 4x4 matrix the code builds has this shape (\<^verbatim>\<open>to_4x4()\<close> of a rotation,
  \<^verbatim>\<open>Matrix.Translation\<close>, and their product). \<open>mat4_mul\<close> is the operator \<^verbatim>\<open>@\<close> on
  two matrices, \<open>mat4_vec\<close> is \<^verbatim>\<open>@\<close> on a matrix and a 3D vector (the vector is
  extended by 1 and the first three coordinates of the product are returned).
\<close>

datatype mat4 = Mat4 (linear: mat3) (offset: vec)

definition to_4x4 :: "mat3 \<Rightarrow> mat4" where
  "to_4x4 m = Mat4 m (Vector 0 0 0)"

definition Translation :: "vec \<Rightarrow> mat4" where
  "Translation v = Mat4 identity3 v"

fun mat4_mul :: "mat4 \<Rightarrow> mat4 \<Rightarrow> mat4" where
  "mat4_mul (Mat4 a s) (Mat4 b t) = Mat4 (mat3_mul a b) (vadd (mat3_vec a t) s)"

fun mat4_vec :: "mat4 \<Rightarrow> vec \<Rightarrow> vec" where
  "mat4_vec (Mat4 a s) p = vadd (mat3_vec a p) s"

text \<open>
  \<^verbatim>\<open>Vector.normalized()\<close>: the host returns the zero vector for a vector of length zero
  (it raises nothing), and the vector divided by its length otherwise.
\<close>

definition normalized :: "vec \<Rightarrow> vec" where
  "normalized v = (if vlength v = 0 then Vector 0 0 0 else vscale (1 / vlength v) v)"

text \<open>
  An axis orthogonal to \<open>v\<close>, chosen by the coordinate of \<open>v\<close> that is largest in absolute
  value; used for the half-turn between opposed vectors.
\<close>

fun ortho :: "vec \<Rightarrow> vec" where
  "ortho (Vector x y z) =
     (if \<bar>x\<bar> > \<bar>y\<bar> then (if \<bar>x\<bar> > \<bar>z\<bar> then Vector (- y - z) x x else Vector z z (- x - y))
      else (if \<bar>y\<bar> > \<bar>z\<bar> then Vector y (- x - z) y else Vector z z (- x - y)))"

definition half_turn :: "vec \<Rightarrow> mat3" where
  "half_turn ax =
     (if ax = Vector 0 0 0 then identity3
      else mat3_add (mat3_scale (2 / dot ax ax) (outer ax)) (mat3_scale (- 1) identity3))"

text \<open>
  Modelled from the spec: the composite \<^verbatim>\<open>a.rotation_difference(b).to_matrix()\<close> of the
  host's math library, of which the repository holds no code. The spec calls it "the
  minimal rotation \<open>R\<close> that maps \<open>d\<close> onto the canonical profile normal axis". For unit
  vectors \<open>a\<close> and \<open>b\<close> (the code passes a normalised direction and the unit z axis) with
  \<open>w = a \<times> b \<noteq> 0\<close> that is the rotation about \<open>w\<close> by the angle between them,
  \<open>I + [w] + [w]\<^sup>2 / (1 + a \<cdot> b)\<close>. Where the cross product vanishes it is the
  identity for vectors of the same direction and a half-turn about an axis orthogonal
  to \<open>a\<close> otherwise; for the zero vector (a zero-length edge) that axis is zero and the
  result is the identity.
\<close>

definition rotation_difference_matrix :: "vec \<Rightarrow> vec \<Rightarrow> mat3" where
  "rotation_difference_matrix a b =
     (let w = cross a b; c = dot a b in
      if w \<noteq> Vector 0 0 0 then
        mat3_add identity3
          (mat3_add (skew w) (mat3_scale (1 / (1 + c)) (mat3_mul (skew w) (skew w))))
      else if c > 0 then identity3
      else half_turn (ortho a))"

section \<open>Edge frame solver\<close>

text \<open>
  The list \<^verbatim>\<open>profiles\<close> that \<^verbatim>\<open>extrude_profiles_along_edges\<close> computes for an edge
  from \<open>v1\<close> to \<open>v2\<close>: the profile under \<^verbatim>\<open>Matrix.Translation(vert) @ rot_matrix\<close>, for
  \<^verbatim>\<open>vert\<close> in \<^verbatim>\<open>(v1.co, v2.co)\<close>.
\<close>

definition edge_profiles :: "vec list \<Rightarrow> vec \<Rightarrow> vec \<Rightarrow> vec list list" where
  "edge_profiles profile_shape v1 v2 =
     (let edge_vector = vsub v2 v1;
          edge_direction = normalized edge_vector;
          z_axis = Vector 0 0 1;
          rot_matrix = to_4x4 (rotation_difference_matrix edge_direction z_axis)
      in map (\<lambda>vert.
                let trans_matrix = Translation vert;
                    transformation_matrix = mat4_mul trans_matrix rot_matrix
                in map (mat4_vec transformation_matrix) profile_shape)
             [v1, v2])"

section \<open>Coordinates as the mesh stores them\<close>

text \<open>
  A float of a vertex coordinate, reduced to its sign bit and its magnitude. For a
  finite float the bit pattern fixes the two and the two fix the bit pattern, so finite
  floats are bit-exact equal exactly when they are equal here; \<^verbatim>\<open>+0.0\<close> is
  \<open>Float False 0\<close> and \<^verbatim>\<open>-0.0\<close> is \<open>Float True 0\<close>, two representations of one
  value. A magnitude is an exact real and never negative; rounding, infinities and NaN
  are outside the model.
\<close>

datatype float = Float (sign_bit: bool) (magnitude: real)

definition float_value :: "float \<Rightarrow> real" where
  "float_value x = (if sign_bit x then - magnitude x else magnitude x)"

text \<open>The product of two floats: the signs are combined, the magnitudes multiplied.\<close>

fun float_mul :: "float \<Rightarrow> float \<Rightarrow> float" where
  "float_mul (Float s m) (Float t k) = Float (s \<noteq> t) (m * k)"

text \<open>A vector of three floats (\<^verbatim>\<open>v.co\<close>, an object's scale), and its value.\<close>

datatype fvec = FVector (fx: float) (fy: float) (fz: float)

definition vec_of :: "fvec \<Rightarrow> vec" where
  "vec_of v = Vector (float_value (fx v)) (float_value (fy v)) (float_value (fz v))"

fun fvmul :: "fvec \<Rightarrow> fvec \<Rightarrow> fvec" where
  "fvmul (FVector a b c) (FVector x y z) = FVector (float_mul a x) (float_mul b y) (float_mul c z)"

text \<open>
  The float of a real value (\<^verbatim>\<open>+0.0\<close> for zero), for writing coordinates down.
\<close>

definition float_of :: "real \<Rightarrow> float" where
  "float_of x = Float (x < 0) \<bar>x\<bar>"

definition fv :: "real \<Rightarrow> real \<Rightarrow> real \<Rightarrow> fvec" where
  "fv x y z = FVector (float_of x) (float_of y) (float_of z)"

text \<open>
  Two frozen vectors are the same dictionary key when they hash alike and compare
  equal. Equal values do both, \<^verbatim>\<open>+0.0\<close> and \<^verbatim>\<open>-0.0\<close> included; different values are
  taken to be different keys (a collision of the hashes of two different vectors within
  one unit in the last place is disregarded).
\<close>

definition same_key :: "fvec \<Rightarrow> fvec \<Rightarrow> bool" where
  "same_key a b = (vec_of a = vec_of b)"

section \<open>Prism builder and corner aggregator\<close>

text \<open>
  The edit structure \<^verbatim>\<open>new_bm\<close> of the output: the coordinates of its vertices, in
  creation order, and its faces. A vertex handle (\<^verbatim>\<open>BMVert\<close>) is the vertex's position
  in \<open>bm_verts\<close>; a face is the list of its vertex handles, in winding order. The edges
  that a face brings with it stay implicit.
\<close>

record bmesh =
  bm_verts :: "vec list"
  bm_faces :: "nat list list"

definition bmesh_new :: bmesh where
  "bmesh_new = \<lparr>bm_verts = [], bm_faces = []\<rparr>"

text \<open>\<^verbatim>\<open>new_bm.verts.new(co)\<close>: a fresh vertex, returned with the updated structure.\<close>

definition verts_new :: "bmesh \<Rightarrow> vec \<Rightarrow> nat \<times> bmesh" where
  "verts_new bm co = (length (bm_verts bm), bm\<lparr>bm_verts := bm_verts bm @ [co]\<rparr>)"

text \<open>The comprehension \<^verbatim>\<open>[new_bm.verts.new(vert) for vert in profile]\<close>.\<close>

fun verts_new_all :: "bmesh \<Rightarrow> vec list \<Rightarrow> nat list \<times> bmesh" where
  "verts_new_all bm [] = ([], bm)"
| "verts_new_all bm (co # rest) =
     (let (v, bm1) = verts_new bm co;
          (vs, bm2) = verts_new_all bm1 rest
      in (v # vs, bm2))"

text \<open>
  \<^verbatim>\<open>new_bm.faces.new(verts)\<close>. The host raises \<^verbatim>\<open>ValueError\<close> for a face that uses a
  vertex twice and for a face whose vertices are those of a face that exists already;
  otherwise the face is added. (The code always passes four handles, so the host's
  test of the number of vertices is never the one that fails.)
\<close>

definition faces_new :: "bmesh \<Rightarrow> nat list \<Rightarrow> error + bmesh" where
  "faces_new bm f =
     (if \<not> distinct f then
        Inl (ValueError ''faces.new(...): found the same (BMVert) used multiple times'')
      else if list_ex (\<lambda>g. set g = set f) (bm_faces bm) then
        Inl (ValueError ''faces.new(verts): face already exists'')
      else Inr (bm\<lparr>bm_faces := bm_faces bm @ [f]\<rparr>))"

text \<open>A \<^verbatim>\<open>for\<close> loop whose body may raise: the first exception ends the loop.\<close>

fun for_each :: "('a \<Rightarrow> 's \<Rightarrow> error + 's) \<Rightarrow> 'a list \<Rightarrow> 's \<Rightarrow> error + 's" where
  "for_each body [] s = Inr s"
| "for_each body (x # xs) s =
     (case body x s of Inl e \<Rightarrow> Inl e | Inr s' \<Rightarrow> for_each body xs s')"

text \<open>
  The loop that creates the lateral faces between the start and the end profile. Both
  lists have the profile's length, so every index read is in range.
\<close>

definition lateral_faces :: "nat list \<Rightarrow> nat list \<Rightarrow> bmesh \<Rightarrow> error + bmesh" where
  "lateral_faces start_verts end_verts bm =
     for_each (\<lambda>i b. faces_new b
                 [start_verts ! i,
                  end_verts ! i,
                  end_verts ! ((i + 1) mod length start_verts),
                  start_verts ! ((i + 1) mod length start_verts)])
          [0..<length start_verts] bm"

text \<open>
  The dictionary \<^verbatim>\<open>profiles_at_corners\<close>, from a frozen coordinate to the list of
  profile vertex lists recorded there. It is an association list in insertion order,
  which is the order \<^verbatim>\<open>items()\<close> yields; a key is stored as it was first inserted.
\<close>

type_synonym corners = "(fvec \<times> nat list list) list"

text \<open>
  \<^verbatim>\<open>if k not in d: d[k] = []\<close> followed by \<^verbatim>\<open>d[k].append(vs)\<close>: a new key gets a
  bucket at the end, a known key keeps its place.
\<close>

fun dict_append :: "fvec \<Rightarrow> nat list \<Rightarrow> corners \<Rightarrow> corners" where
  "dict_append k vs [] = [(k, [vs])]"
| "dict_append k vs ((k', ps) # d) =
     (if same_key k' k then (k', ps @ [vs]) # d else (k', ps) # dict_append k vs d)"

text \<open>\<^verbatim>\<open>d.get(k)\<close>, and the bucket of a key; no bucket reads as the empty list.\<close>

fun lookup :: "corners \<Rightarrow> fvec \<Rightarrow> nat list list option" where
  "lookup [] k = None"
| "lookup ((k', ps) # d) k = (if same_key k' k then Some ps else lookup d k)"

definition bucket :: "corners \<Rightarrow> fvec \<Rightarrow> nat list list" where
  "bucket d k = (case lookup d k of None \<Rightarrow> [] | Some ps \<Rightarrow> ps)"

text \<open>
  The body of the loop over \<^verbatim>\<open>bm.edges\<close>. An edge is given by the coordinates of
  \<^verbatim>\<open>edge.verts\<close>; only an edge of exactly two vertices is processed. There is no test
  on the two coordinates: an edge whose ends coincide takes the same path. An exception
  of \<^verbatim>\<open>faces.new\<close> ends the body before anything is recorded at the corners.
\<close>

fun process_edge ::
  "vec list \<Rightarrow> fvec list \<Rightarrow> bmesh \<times> corners \<Rightarrow> error + bmesh \<times> corners" where
  "process_edge profile_shape [v1, v2] (new_bm, pac) =
     (let profiles = edge_profiles profile_shape (vec_of v1) (vec_of v2);
          (start_verts, bm1) = verts_new_all new_bm (profiles ! 0);
          (end_verts, bm2) = verts_new_all bm1 (profiles ! 1)
      in case lateral_faces start_verts end_verts bm2 of
           Inl e \<Rightarrow> Inl e
         | Inr bm3 \<Rightarrow>
             (let pac1 = dict_append v1 start_verts pac;
                  pac2 = dict_append v2 end_verts pac1
              in Inr (bm3, pac2)))"
| "process_edge profile_shape edge_verts (new_bm, pac) = Inr (new_bm, pac)"

definition edge_pass :: "vec list \<Rightarrow> fvec list list \<Rightarrow> error + bmesh \<times> corners" where
  "edge_pass profile_shape es = for_each (process_edge profile_shape) es (bmesh_new, [])"

section \<open>Junction closer\<close>

text \<open>All the given vertices have one coordinate.\<close>

definition coincident :: "bmesh \<Rightarrow> nat list \<Rightarrow> bool" where
  "coincident bm vs = list_all (\<lambda>v. list_all (\<lambda>u. bm_verts bm ! u = bm_verts bm ! v) vs) vs"

text \<open>
  \<^verbatim>\<open>bmesh.ops.convex_hull\<close> is the host's. Points that all coincide span no face and
  the host creates none for them; for every other input the faces it creates are those
  the parameter \<open>hull_op\<close> returns for the structure and the input vertices. The
  operator, called as the code calls it, adds faces and changes nothing else.
\<close>

definition convex_hull :: "(bmesh \<Rightarrow> nat list \<Rightarrow> nat list list) \<Rightarrow> bmesh \<Rightarrow> nat list \<Rightarrow> bmesh" where
  "convex_hull hull_op bm corner_verts =
     bm\<lparr>bm_faces := bm_faces bm @
          (if coincident bm corner_verts then [] else hull_op bm corner_verts)\<rparr>"

definition close_corner_with_convex_hull ::
  "(bmesh \<Rightarrow> nat list \<Rightarrow> nat list list) \<Rightarrow> bmesh \<Rightarrow> nat list list \<Rightarrow> bmesh" where
  "close_corner_with_convex_hull hull_op new_bm corner_profiles =
     (let corner_verts = concat corner_profiles in
      if length corner_verts > 3 then convex_hull hull_op new_bm corner_verts else new_bm)"

text \<open>The body of the loop over \<^verbatim>\<open>profiles_at_corners.items()\<close>.\<close>

fun corner_step ::
  "(bmesh \<Rightarrow> nat list \<Rightarrow> nat list list) \<Rightarrow> fvec \<times> nat list list \<Rightarrow> bmesh \<Rightarrow> bmesh" where
  "corner_step hull_op (corner, corner_profiles) new_bm =
     (if length corner_profiles > 1 then close_corner_with_convex_hull hull_op new_bm corner_profiles
      else new_bm)"

definition corner_pass :: "(bmesh \<Rightarrow> nat list \<Rightarrow> nat list list) \<Rightarrow> corners \<Rightarrow> bmesh \<Rightarrow> bmesh" where
  "corner_pass hull_op pac new_bm = fold (corner_step hull_op) pac new_bm"


section \<open>Mesh assembly\<close>

text \<open>
  A mesh of the scene: vertex coordinates, edges and faces, both as lists of vertex
  indices.
\<close>

record mesh =
  verts :: "fvec list"
  edges :: "nat list list"
  faces :: "nat list list"

text \<open>
  A mesh object of the scene: its scale, its mesh and whether it is selected. The scene
  as the build sees it: the input object and the other mesh objects.
\<close>

record object =
  obj_scale :: fvec
  obj_data :: mesh
  obj_selected :: bool

record world =
  mesh_obj :: object
  others :: "object list"

text \<open>
  What the host's \<^verbatim>\<open>transform_apply(location=False, rotation=False, scale=True)\<close> does
  to one object: the mesh's coordinates are multiplied by the object's scale and the
  scale is reset to one.
\<close>

definition transform_apply :: "object \<Rightarrow> object" where
  "transform_apply ob =
     ob\<lparr>obj_data := (obj_data ob)\<lparr>verts := map (fvmul (obj_scale ob)) (verts (obj_data ob))\<rparr>,
        obj_scale := FVector (Float False 1) (Float False 1) (Float False 1)\<rparr>"

text \<open>
  \<^verbatim>\<open>apply_object_scale\<close>: the input object is selected on top of what is selected
  already, and the host's operator then acts on every selected object. Modelled from the
  spec: the operator "fails with \<^verbatim>\<open>ScaleNormalizationError\<close> if the host cannot apply
  transforms"; whether it can is the host's matter and the parameter
  \<open>transform_apply_ok\<close> of the model, and a refusal raises before any mesh is changed.
\<close>

definition apply_object_scale :: "(world \<Rightarrow> bool) \<Rightarrow> world \<Rightarrow> error option \<times> world" where
  "apply_object_scale transform_apply_ok w =
     (let w1 = w\<lparr>mesh_obj := (mesh_obj w)\<lparr>obj_selected := True\<rparr>\<rparr> in
      if transform_apply_ok w1 then
        (None, \<lparr>mesh_obj = transform_apply (mesh_obj w1),
                others = map (\<lambda>ob. if obj_selected ob then transform_apply ob else ob) (others w1)\<rparr>)
      else (Some (RuntimeError ''transform_apply''), w1))"

text \<open>\<^verbatim>\<open>delete_faces\<close>: the host's delete with context \<^verbatim>\<open>FACES_ONLY\<close>.\<close>

definition delete_faces :: "world \<Rightarrow> world" where
  "delete_faces w = w\<lparr>mesh_obj := (mesh_obj w)\<lparr>obj_data := (obj_data (mesh_obj w))\<lparr>faces := []\<rparr>\<rparr>\<rparr>"

text \<open>The coordinates of \<^verbatim>\<open>edge.verts\<close> for every edge of \<^verbatim>\<open>bm.edges\<close>.\<close>

definition bm_edges :: "mesh \<Rightarrow> fvec list list" where
  "bm_edges m = map (map (\<lambda>i. verts m ! i)) (edges m)"

text \<open>
  \<^verbatim>\<open>merge_prism_vertices\<close> hands the whole mesh to the host's
  \<^verbatim>\<open>bmesh.ops.remove_doubles\<close>, a parameter of the model.
\<close>

definition merge_prism_vertices :: "(bmesh \<Rightarrow> real \<Rightarrow> bmesh) \<Rightarrow> bmesh \<Rightarrow> real \<Rightarrow> bmesh" where
  "merge_prism_vertices remove_doubles new_mesh merge_threshold =
     remove_doubles new_mesh merge_threshold"

text \<open>
  \<^verbatim>\<open>extrude_profiles_along_edges\<close>, with the module's profile generator as the
  parameter \<open>gen\<close> (the two modules differ in nothing else). The result is the exception
  that ended the call, if any, the scene as the call left it, and the mesh of the new
  object if the call got as far as linking it. The new object is linked, with an empty
  mesh, before the profile is generated; its mesh is written by \<^verbatim>\<open>to_mesh\<close> after the
  corner pass and then welded. The exceptions of the model are the refusal of the scale
  application, the generator's and the refusal of a face; the other calls of the host
  are taken to succeed.
\<close>

definition extrude_with ::
  "(string \<Rightarrow> real \<Rightarrow> int \<Rightarrow> error + vec list) \<Rightarrow> (world \<Rightarrow> bool) \<Rightarrow>
   (bmesh \<Rightarrow> nat list \<Rightarrow> nat list list) \<Rightarrow> (bmesh \<Rightarrow> real \<Rightarrow> bmesh) \<Rightarrow>
   world \<Rightarrow> string \<Rightarrow> real \<Rightarrow> int \<Rightarrow> bool \<Rightarrow> real \<Rightarrow>
   error option \<times> world \<times> bmesh option" where
  "extrude_with gen transform_apply_ok hull_op remove_doubles w profile_type psize segments
     delete_original_faces merge_threshold =
     (case apply_object_scale transform_apply_ok w of
        (Some e, w1) \<Rightarrow> (Some e, w1, None)
      | (None, w1) \<Rightarrow>
          (let w2 = (if delete_original_faces then delete_faces w1 else w1);
               bm = bm_edges (obj_data (mesh_obj w2));
               new_mesh = bmesh_new
           in case gen profile_type psize segments of
                Inl e \<Rightarrow> (Some e, w2, Some new_mesh)
              | Inr profile_shape \<Rightarrow>
                  (case edge_pass profile_shape bm of
                     Inl e \<Rightarrow> (Some e, w2, Some new_mesh)
                   | Inr (new_bm, profiles_at_corners) \<Rightarrow>
                       (let new_bm' = corner_pass hull_op profiles_at_corners new_bm
                        in (None, w2,
                            Some (merge_prism_vertices remove_doubles new_bm' merge_threshold))))))"

definition extrude_profiles_along_edges ::
  "(world \<Rightarrow> bool) \<Rightarrow> (bmesh \<Rightarrow> nat list \<Rightarrow> nat list list) \<Rightarrow> (bmesh \<Rightarrow> real \<Rightarrow> bmesh) \<Rightarrow>
   world \<Rightarrow> string \<Rightarrow> real \<Rightarrow> int \<Rightarrow> bool \<Rightarrow> real \<Rightarrow>
   error option \<times> world \<times> bmesh option" where
  "extrude_profiles_along_edges = extrude_with create_profile"

definition cwp_extrude_profiles_along_edges ::
  "(world \<Rightarrow> bool) \<Rightarrow> (bmesh \<Rightarrow> nat list \<Rightarrow> nat list list) \<Rightarrow> (bmesh \<Rightarrow> real \<Rightarrow> bmesh) \<Rightarrow>
   world \<Rightarrow> string \<Rightarrow> real \<Rightarrow> int \<Rightarrow> bool \<Rightarrow> real \<Rightarrow>
   error option \<times> world \<times> bmesh option" where
  "cwp_extrude_profiles_along_edges = extrude_with cwp_create_profile"

section \<open>Predicates of the statements\<close>

text \<open>The coordinates of a face's vertices, in the face's order.\<close>

definition face_coords :: "bmesh \<Rightarrow> nat list \<Rightarrow> vec list" where
  "face_coords bm f = map (\<lambda>v. bm_verts bm ! v) f"

text \<open>
  A face of exactly four vertices whose corners lie in one plane: the triple product of
  the three edge vectors at the first corner vanishes.
\<close>

definition planar_quad :: "bmesh \<Rightarrow> nat list \<Rightarrow> bool" where
  "planar_quad bm f =
     (case face_coords bm f of
        [a, b, c, d] \<Rightarrow> dot (vsub b a) (cross (vsub c a) (vsub d a)) = 0
      | _ \<Rightarrow> False)"

text \<open>
  The points lie in one plane perpendicular to \<open>d\<close>: every point differs from the
  first by a vector orthogonal to \<open>d\<close>.
\<close>

fun in_plane_perpendicular_to :: "vec \<Rightarrow> vec list \<Rightarrow> bool" where
  "in_plane_perpendicular_to d [] = True"
| "in_plane_perpendicular_to d (p0 # ps) = list_all (\<lambda>p. dot (vsub p p0) d = 0) ps"

text \<open>Every face of the structure uses existing vertices only.\<close>

definition faces_in_range :: "bmesh \<Rightarrow> bool" where
  "faces_in_range bm = list_all (\<lambda>f. list_all (\<lambda>v. v < length (bm_verts bm)) f) (bm_faces bm)"

text \<open>
  The end coordinates the edge pass records, in order: both ends of every edge of two
  vertices.
\<close>

definition endpoints :: "fvec list list \<Rightarrow> fvec list" where
  "endpoints es = concat (filter (\<lambda>e. length e = 2) es)"

text \<open>
  The edge pass in closed form: the vertices an edge contributes, the lateral faces of a
  prism whose first vertex has handle \<open>n0\<close>, and the lateral faces and the dictionary of
  a list of edges.
\<close>

definition prism_verts :: "vec list \<Rightarrow> fvec list \<Rightarrow> vec list" where
  "prism_verts profile_shape e =
     (case e of
        [v1, v2] \<Rightarrow> edge_profiles profile_shape (vec_of v1) (vec_of v2) ! 0
                    @ edge_profiles profile_shape (vec_of v1) (vec_of v2) ! 1
      | _ \<Rightarrow> [])"

definition prism_faces :: "nat \<Rightarrow> nat \<Rightarrow> nat list list" where
  "prism_faces n n0 =
     map (\<lambda>i. [n0 + i, n0 + n + i, n0 + n + (i + 1) mod n, n0 + (i + 1) mod n]) [0..<n]"

fun pass_faces :: "nat \<Rightarrow> nat \<Rightarrow> fvec list list \<Rightarrow> nat list list" where
  "pass_faces n n0 [] = []"
| "pass_faces n n0 (e # es) =
     (if length e = 2 then prism_faces n n0 @ pass_faces n (n0 + 2 * n) es
      else pass_faces n n0 es)"

fun pass_corners :: "nat \<Rightarrow> nat \<Rightarrow> fvec list list \<Rightarrow> corners \<Rightarrow> corners" where
  "pass_corners n n0 [] pac = pac"
| "pass_corners n n0 (e # es) pac =
     (if length e = 2 then
        pass_corners n (n0 + 2 * n) es
          (dict_append (e ! 1) [n0 + n..<n0 + 2 * n] (dict_append (e ! 0) [n0..<n0 + n] pac))
      else pass_corners n n0 es pac)"

text \<open>
  Two floats with the same bit pattern, or two zeros of either sign; and a vector whose
  magnitudes are not negative, as every float's is.
\<close>

definition same_float :: "float \<Rightarrow> float \<Rightarrow> bool" where
  "same_float x y = (x = y \<or> (magnitude x = 0 \<and> magnitude y = 0))"

definition well_formed :: "fvec \<Rightarrow> bool" where
  "well_formed v = (0 \<le> magnitude (fx v) \<and> 0 \<le> magnitude (fy v) \<and> 0 \<le> magnitude (fz v))"

text \<open>The values of the dictionary's keys, in insertion order.\<close>

definition key_values :: "corners \<Rightarrow> vec list" where
  "key_values d = map (\<lambda>c. vec_of (fst c)) d"

section \<open>Properties of the profile generator\<close>

lemma round_point_length:
  assumes "0 < s"
  shows "vlength (Vector (cos a * s) (sin a * s) 0) = s"
proof -
  have "(cos a * s) * (cos a * s) + (sin a * s) * (sin a * s)
        = s * s * (cos a * cos a + sin a * sin a)"
    by algebra
  also have "\<dots> = s * s"
    by (simp only: sin_cos_squared_add3 mult_1_right)
  finally show ?thesis
    using assms by (simp add: vlength_def)
qed

lemma round_point_length':
  assumes "0 < s"
  shows "vlength (Vector (s * cos a) (s * sin a) 0) = s"
  using round_point_length [OF assms, of a] by (simp add: mult.commute)

text \<open>
  C2 (amended). For a positive size and at least three segments, the generator of
  \<^verbatim>\<open>profiled_wireframe.py\<close> returns the four corners of the square, \<^verbatim>\<open>segments\<close>
  points on the circle of radius \<^verbatim>\<open>size\<close> (point \<open>i\<close> at angle \<open>2\<pi>i/segments\<close>, at
  distance \<^verbatim>\<open>size\<close> from the origin), or the three corners of the triangle; every point
  has \<open>z = 0\<close>; and it raises the unsupported-shape error exactly for a tag outside
  SQUARE, ROUND, TRIANGLE. The generator of \<^verbatim>\<open>custom_wireframe_with_profiles.py\<close>
  returns the same square and round profiles and raises the error for every other tag,
  TRIANGLE included.
\<close>

theorem create_profile_points:
  assumes "0 < psize" and "3 \<le> segments"
  shows
    "create_profile ''SQUARE'' psize segments =
       Inr [Vector (- psize) (- psize) 0, Vector psize (- psize) 0,
            Vector psize psize 0, Vector (- psize) psize 0]
     \<and> (\<exists>pts. create_profile ''ROUND'' psize segments = Inr pts
            \<and> length pts = nat segments
            \<and> (\<forall>i < nat segments.
                  pts ! i = Vector (psize * cos (2 * pi * real i / real_of_int segments))
                                   (psize * sin (2 * pi * real i / real_of_int segments)) 0
                  \<and> vlength (pts ! i) = psize))
     \<and> create_profile ''TRIANGLE'' psize segments =
         Inr [Vector 0 psize 0, Vector (- psize) (- psize) 0, Vector psize (- psize) 0]
     \<and> (\<forall>tag. create_profile tag psize segments = Inl (ValueError ''Unsupported profile type'')
              \<longleftrightarrow> tag \<notin> {''SQUARE'', ''ROUND'', ''TRIANGLE''})
     \<and> (\<forall>tag pts. create_profile tag psize segments = Inr pts \<longrightarrow> (\<forall>p \<in> set pts. vz p = 0))
     \<and> cwp_create_profile ''SQUARE'' psize segments = create_profile ''SQUARE'' psize segments
     \<and> cwp_create_profile ''ROUND'' psize segments = create_profile ''ROUND'' psize segments
     \<and> (\<forall>tag. cwp_create_profile tag psize segments = Inl (ValueError ''Unsupported profile type'')
              \<longleftrightarrow> tag \<notin> {''SQUARE'', ''ROUND''})"
proof -
  have sq: "create_profile ''SQUARE'' psize segments =
       Inr [Vector (- psize) (- psize) 0, Vector psize (- psize) 0,
            Vector psize psize 0, Vector (- psize) psize 0]"
    by (simp add: create_profile_def)
  have tri: "create_profile ''TRIANGLE'' psize segments =
         Inr [Vector 0 psize 0, Vector (- psize) (- psize) 0, Vector psize (- psize) 0]"
    by (simp add: create_profile_def)
  let ?pts = "map (\<lambda>i. Vector (cos (real i * 2 * pi / real_of_int segments) * psize)
                             (sin (real i * 2 * pi / real_of_int segments) * psize) 0)
                 [0..<nat segments]"
  have rd: "create_profile ''ROUND'' psize segments = Inr ?pts"
    by (simp add: create_profile_def)
  have rd_nth: "?pts ! i = Vector (psize * cos (2 * pi * real i / real_of_int segments))
                                  (psize * sin (2 * pi * real i / real_of_int segments)) 0"
    if "i < nat segments" for i
    using that by (simp add: mult.commute mult.left_commute)
  have rd_len: "vlength (?pts ! i) = psize" if "i < nat segments" for i
    by (simp only: rd_nth [OF that] round_point_length' [OF assms(1)])
  have rd_pts: "\<forall>i < nat segments.
                  ?pts ! i = Vector (psize * cos (2 * pi * real i / real_of_int segments))
                                   (psize * sin (2 * pi * real i / real_of_int segments)) 0
                  \<and> vlength (?pts ! i) = psize"
    using rd_nth rd_len by blast
  have round: "\<exists>pts. create_profile ''ROUND'' psize segments = Inr pts
            \<and> length pts = nat segments
            \<and> (\<forall>i < nat segments.
                  pts ! i = Vector (psize * cos (2 * pi * real i / real_of_int segments))
                                   (psize * sin (2 * pi * real i / real_of_int segments)) 0
                  \<and> vlength (pts ! i) = psize)"
    using rd rd_pts by (intro exI[of _ ?pts]) simp
  have err: "\<forall>tag. create_profile tag psize segments = Inl (ValueError ''Unsupported profile type'')
              \<longleftrightarrow> tag \<notin> {''SQUARE'', ''ROUND'', ''TRIANGLE''}"
    by (simp add: create_profile_def)
  have flat: "\<forall>tag pts. create_profile tag psize segments = Inr pts \<longrightarrow> (\<forall>p \<in> set pts. vz p = 0)"
    by (auto simp: create_profile_def split: if_splits)
  have c1: "cwp_create_profile ''SQUARE'' psize segments = create_profile ''SQUARE'' psize segments"
    by (simp add: create_profile_def cwp_create_profile_def)
  have c2: "cwp_create_profile ''ROUND'' psize segments = create_profile ''ROUND'' psize segments"
    by (simp add: create_profile_def cwp_create_profile_def)
  have c3: "\<forall>tag. cwp_create_profile tag psize segments = Inl (ValueError ''Unsupported profile type'')
              \<longleftrightarrow> tag \<notin> {''SQUARE'', ''ROUND''}"
    by (simp add: cwp_create_profile_def)
  show ?thesis
    using sq round tri err flat c1 c2 c3 by blast
qed

text \<open>The theorem at size 1 and four segments.\<close>

theorem create_profile_points_witness:
  "(0::real) < 1 \<and> (3::int) \<le> 4
   \<and> create_profile ''ROUND'' 1 4 \<noteq> Inl (ValueError ''Unsupported profile type'')
   \<and> (\<exists>pts. create_profile ''ROUND'' 1 4 = Inr pts \<and> length pts = 4 \<and> vlength (pts ! 1) = 1)
   \<and> cwp_create_profile ''TRIANGLE'' 1 4 = Inl (ValueError ''Unsupported profile type'')"
proof -
  have h1: "(0::real) < 1" and h2: "(3::int) \<le> 4" by simp_all
  note t = create_profile_points [OF h1 h2]
  from t obtain pts where p: "create_profile ''ROUND'' 1 4 = Inr pts" "length pts = nat 4"
      "\<forall>i < nat 4. pts ! i = Vector (1 * cos (2 * pi * real i / real_of_int 4))
                                   (1 * sin (2 * pi * real i / real_of_int 4)) 0
                  \<and> vlength (pts ! i) = 1"
    by blast
  have "(1::nat) < nat 4" by simp
  with p(3) have "vlength (pts ! 1) = 1" by blast
  moreover have "cwp_create_profile ''TRIANGLE'' 1 4 = Inl (ValueError ''Unsupported profile type'')"
    using t by simp
  ultimately show ?thesis using p(1,2) by simp
qed

text \<open>
  C2 as stated fails for the generator of \<^verbatim>\<open>custom_wireframe_with_profiles.py\<close>: the
  tag TRIANGLE raises instead of returning the three corners.
\<close>

theorem cwp_create_profile_triangle_unsupported:
  "cwp_create_profile ''TRIANGLE'' 1 3 = Inl (ValueError ''Unsupported profile type'')
   \<and> cwp_create_profile ''TRIANGLE'' 1 3 \<noteq> Inr [Vector 0 1 0, Vector (- 1) (- 1) 0, Vector 1 (- 1) 0]"
  by (simp add: cwp_create_profile_def)

section \<open>The affine transformation of a profile\<close>

lemma mat3_vec_identity3: "mat3_vec identity3 v = v"
  by (cases v) (simp add: identity3_def)

lemma mat3_mul_identity3: "mat3_mul identity3 m = m"
proof (cases m)
  case (Mat3 r1 r2 r3)
  then show ?thesis
    by (cases r1; cases r2; cases r3) (simp add: identity3_def)
qed

lemma vadd_zero_left: "vadd (Vector 0 0 0) v = v"
  by (cases v) simp

lemma transformation_apply:
  "mat4_vec (mat4_mul (Translation vert) (to_4x4 r)) p = vadd (mat3_vec r p) vert"
  by (simp add: Translation_def to_4x4_def mat3_mul_identity3 mat3_vec_identity3 vadd_zero_left)

lemma edge_profiles_eq:
  "edge_profiles profile_shape v1 v2 =
     (let r = rotation_difference_matrix (normalized (vsub v2 v1)) (Vector 0 0 1)
      in [map (\<lambda>p. vadd (mat3_vec r p) v1) profile_shape,
          map (\<lambda>p. vadd (mat3_vec r p) v2) profile_shape])"
  by (simp add: edge_profiles_def Let_def transformation_apply)

lemma edge_profiles_length:
  "length (edge_profiles profile_shape v1 v2) = 2"
  "length (edge_profiles profile_shape v1 v2 ! 0) = length profile_shape"
  "length (edge_profiles profile_shape v1 v2 ! 1) = length profile_shape"
  "length (edge_profiles profile_shape v1 v2 ! Suc 0) = length profile_shape"
  by (simp_all add: edge_profiles_eq Let_def)

text \<open>
  The rotation of the model is the one the spec describes: it takes a unit direction
  other than \<open>-Z\<close> onto \<open>+Z\<close>. The same rotation takes the profile's normal \<open>+Z\<close> to
  the mirror image \<open>(-x, -y, z)\<close> of the direction, not to the direction.
\<close>

lemma rotation_onto_z_matrix:
  assumes "x \<noteq> 0 \<or> y \<noteq> 0"
  shows "rotation_difference_matrix (Vector x y z) (Vector 0 0 1) =
           Mat3 (Vector (1 - x * x / (1 + z)) (- (x * y) / (1 + z)) (- x))
                (Vector (- (x * y) / (1 + z)) (1 - y * y / (1 + z)) (- y))
                (Vector x y (1 - (x * x + y * y) / (1 + z)))"
  using assms
  by (auto simp: rotation_difference_matrix_def identity3_def Let_def add_divide_distrib diff_divide_distrib)

lemma unit_quotient:
  assumes "x * x + y * y + z * z = (1::real)" and "z \<noteq> - 1"
  shows "(x * x + y * y) / (1 + z) = 1 - z"
proof -
  have z1: "1 + z \<noteq> 0" using assms(2) by linarith
  have "x * x + y * y = (1 - z) * (1 + z)" using assms(1) by algebra
  then show ?thesis using z1 by simp
qed

lemma rotation_maps_direction_onto_z:
  assumes u: "x * x + y * y + z * z = 1" and z: "z \<noteq> - 1"
  shows "mat3_vec (rotation_difference_matrix (Vector x y z) (Vector 0 0 1)) (Vector x y z)
           = Vector 0 0 1"
proof (cases "x \<noteq> 0 \<or> y \<noteq> 0")
  case True
  note q = unit_quotient [OF u z]
  have "(1 - x * x / (1 + z)) * x + - (x * y) / (1 + z) * y + - x * z
             = x * (1 - (x * x + y * y) / (1 + z)) - x * z"
    by (simp add: algebra_simps add_divide_distrib)
  also have "\<dots> = 0"
    unfolding q by simp
  finally have a: "(1 - x * x / (1 + z)) * x + - (x * y) / (1 + z) * y + - x * z = 0" .
  have "- (x * y) / (1 + z) * x + (1 - y * y / (1 + z)) * y + - y * z
             = y * (1 - (x * x + y * y) / (1 + z)) - y * z"
    by (simp add: algebra_simps add_divide_distrib)
  also have "\<dots> = 0"
    unfolding q by simp
  finally have b: "- (x * y) / (1 + z) * x + (1 - y * y / (1 + z)) * y + - y * z = 0" .
  have c: "x * x + y * y + (1 - (x * x + y * y) / (1 + z)) * z = 1"
    unfolding q using u by simp
  show ?thesis
    unfolding rotation_onto_z_matrix [OF True]
    by (simp only: mat3_vec.simps dot.simps a b c)
next
  case False
  with u have "z * z = 1" by simp
  then have "z = 1 \<or> z = - 1" by (simp add: square_eq_1_iff)
  with z False show ?thesis
    by (simp add: rotation_difference_matrix_def identity3_def)
qed

lemma rotation_profile_normal:
  assumes u: "x * x + y * y + z * z = 1" and z: "z \<noteq> - 1"
  shows "mat3_vec (rotation_difference_matrix (Vector x y z) (Vector 0 0 1)) (Vector 0 0 1)
           = Vector (- x) (- y) z"
proof (cases "x \<noteq> 0 \<or> y \<noteq> 0")
  case True
  show ?thesis
    unfolding rotation_onto_z_matrix [OF True]
    by (simp add: unit_quotient [OF u z])
next
  case False
  with u have "z * z = 1" by simp
  then have "z = 1 \<or> z = - 1" by (simp add: square_eq_1_iff)
  with z False show ?thesis
    by (simp add: rotation_difference_matrix_def identity3_def)
qed

lemma sqrt_25: "sqrt 25 = 5"
  by (rule real_sqrt_unique) simp_all

section \<open>Edge frame solver: an oblique edge\<close>

text \<open>
  C1 at the edge from \<open>(0, 0, 0)\<close> to \<open>(3, 0, 4)\<close> with the square profile of size 1.
  The direction is \<open>(3/5, 0, 4/5)\<close>; the two profile instances are translates of each
  other, but neither lies in a plane perpendicular to the direction: two of its points
  differ by a vector whose product with the direction is \<open>48/25\<close>.
\<close>

theorem edge_frame_oblique_edge:
  "normalized (vsub (Vector 3 0 4) (Vector 0 0 0)) = Vector (3 / 5) 0 (4 / 5)
   \<and> rotation_difference_matrix (Vector (3 / 5) 0 (4 / 5)) (Vector 0 0 1) =
       Mat3 (Vector (4 / 5) 0 (- 3 / 5)) (Vector 0 1 0) (Vector (3 / 5) 0 (4 / 5))
   \<and> edge_profiles [Vector (- 1) (- 1) 0, Vector 1 (- 1) 0, Vector 1 1 0, Vector (- 1) 1 0]
        (Vector 0 0 0) (Vector 3 0 4) =
       [[Vector (- 4 / 5) (- 1) (- 3 / 5), Vector (4 / 5) (- 1) (3 / 5),
         Vector (4 / 5) 1 (3 / 5), Vector (- 4 / 5) 1 (- 3 / 5)],
        [Vector (11 / 5) (- 1) (17 / 5), Vector (19 / 5) (- 1) (23 / 5),
         Vector (19 / 5) 1 (23 / 5), Vector (11 / 5) 1 (17 / 5)]]
   \<and> dot (vsub (Vector (4 / 5) (- 1) (3 / 5)) (Vector (- 4 / 5) (- 1) (- 3 / 5)))
          (Vector (3 / 5) 0 (4 / 5)) = 48 / 25
   \<and> \<not> in_plane_perpendicular_to (Vector (3 / 5) 0 (4 / 5))
          (edge_profiles [Vector (- 1) (- 1) 0, Vector 1 (- 1) 0, Vector 1 1 0, Vector (- 1) 1 0]
             (Vector 0 0 0) (Vector 3 0 4) ! 0)
   \<and> \<not> in_plane_perpendicular_to (Vector (3 / 5) 0 (4 / 5))
          (edge_profiles [Vector (- 1) (- 1) 0, Vector 1 (- 1) 0, Vector 1 1 0, Vector (- 1) 1 0]
             (Vector 0 0 0) (Vector 3 0 4) ! 1)"
proof -
  have n: "normalized (Vector 3 0 4) = Vector (3 / 5) 0 (4 / 5)"
    by (simp add: normalized_def vlength_def sqrt_25)
  have r: "rotation_difference_matrix (Vector (3 / 5) 0 (4 / 5)) (Vector 0 0 1) =
       Mat3 (Vector (4 / 5) 0 (- 3 / 5)) (Vector 0 1 0) (Vector (3 / 5) 0 (4 / 5))"
    by (simp add: rotation_difference_matrix_def identity3_def Let_def)
  have ep: "edge_profiles [Vector (- 1) (- 1) 0, Vector 1 (- 1) 0, Vector 1 1 0, Vector (- 1) 1 0]
        (Vector 0 0 0) (Vector 3 0 4) =
       [[Vector (- 4 / 5) (- 1) (- 3 / 5), Vector (4 / 5) (- 1) (3 / 5),
         Vector (4 / 5) 1 (3 / 5), Vector (- 4 / 5) 1 (- 3 / 5)],
        [Vector (11 / 5) (- 1) (17 / 5), Vector (19 / 5) (- 1) (23 / 5),
         Vector (19 / 5) 1 (23 / 5), Vector (11 / 5) 1 (17 / 5)]]"
    by (simp add: edge_profiles_eq n r Let_def)
  show ?thesis
    by (simp add: n r ep)
qed

section \<open>Prism builder\<close>

lemma verts_new_all_eq:
  "verts_new_all bm cs =
     ([length (bm_verts bm)..<length (bm_verts bm) + length cs], bm\<lparr>bm_verts := bm_verts bm @ cs\<rparr>)"
proof (induction cs arbitrary: bm)
  case Nil
  then show ?case by simp
next
  case (Cons c cs)
  show ?case
    by (simp add: Cons.IH verts_new_def upt_conv_Cons del: upt_Suc)
qed

lemma for_each_append:
  "for_each body (xs @ ys) s =
     (case for_each body xs s of Inl e \<Rightarrow> Inl e | Inr s' \<Rightarrow> for_each body ys s')"
  by (induction xs arbitrary: s) (simp_all split: sum.splits)

lemma length_two: "length e = 2 \<Longrightarrow> \<exists>v1 v2. e = [v1, v2]"
  by (cases e; cases "tl e") auto

lemma prism_faces_nth:
  "i < n \<Longrightarrow> prism_faces n n0 ! i = [n0 + i, n0 + n + i, n0 + n + (i + 1) mod n, n0 + (i + 1) mod n]"
  by (simp add: prism_faces_def del: One_nat_def)

lemma length_prism_faces: "length (prism_faces n n0) = n"
  by (simp add: prism_faces_def)

lemma prism_faces_take_Suc:
  "k < n \<Longrightarrow> take (Suc k) (prism_faces n n0) = take k (prism_faces n n0) @ [prism_faces n n0 ! k]"
  by (simp add: take_Suc_conv_app_nth length_prism_faces)

lemma succ_mod_neq: "2 \<le> n \<Longrightarrow> i < n \<Longrightarrow> Suc i mod n \<noteq> i"
  by (cases "Suc i < n") (auto simp: mod_Suc)

lemma prism_face_distinct:
  fixes n i n0 :: nat
  assumes "2 \<le> n" and "i < n"
  shows "distinct [n0 + i, n0 + n + i, n0 + n + (i + 1) mod n, n0 + (i + 1) mod n]"
proof -
  define m where "m = Suc i mod n"
  have m: "m < n" "m \<noteq> i"
    using assms succ_mod_neq [OF assms] by (simp_all add: m_def)
  have "distinct [n0 + i, n0 + n + i, n0 + n + m, n0 + m]"
    using assms m by auto
  then show ?thesis by (simp add: m_def)
qed

lemma prism_face_set_inj:
  fixes n i j n0 :: nat
  assumes n: "3 \<le> n" and i: "i < n" and j: "j < n"
    and eq: "set [n0 + j, n0 + n + j, n0 + n + (j + 1) mod n, n0 + (j + 1) mod n]
           = set [n0 + i, n0 + n + i, n0 + n + (i + 1) mod n, n0 + (i + 1) mod n]"
  shows "j = i"
proof (rule ccontr)
  assume ne: "j \<noteq> i"
  define a where "a = Suc i mod n"
  define b where "b = Suc j mod n"
  have a: "a < n" "a \<noteq> i" and b: "b < n" "b \<noteq> j"
    using n i j succ_mod_neq [of n i] succ_mod_neq [of n j] by (simp_all add: a_def b_def)
  have eq': "{n0 + j, n0 + n + j, n0 + n + b, n0 + b} = {n0 + i, n0 + n + i, n0 + n + a, n0 + a}"
    using eq by (simp add: a_def b_def)
  have "n0 + i \<in> {n0 + j, n0 + n + j, n0 + n + b, n0 + b}"
    unfolding eq' by simp
  with i j b ne have ib: "i = b" by auto
  have "n0 + j \<in> {n0 + i, n0 + n + i, n0 + n + a, n0 + a}"
    unfolding eq' [symmetric] by simp
  with i j a ne have ja: "j = a" by auto
  show False
  proof (cases "Suc i < n")
    case True
    then have "a = Suc i" by (simp add: a_def)
    with ja have js: "j = Suc i" by simp
    show ?thesis
    proof (cases "Suc j < n")
      case True
      then have "b = Suc j" by (simp add: b_def)
      with ib js show ?thesis by simp
    next
      case False
      with j have "Suc j = n" by simp
      then have "b = 0" by (simp add: b_def)
      with ib js \<open>Suc j = n\<close> n show ?thesis by simp
    qed
  next
    case False
    with i have si: "Suc i = n" by simp
    then have "a = 0" by (simp add: a_def)
    with ja have j0: "j = 0" by simp
    with n have "b = 1" by (simp add: b_def)
    with ib si n show ?thesis by simp
  qed
qed

lemma lateral_loop:
  assumes n: "3 \<le> n" and k: "k \<le> n"
    and old: "list_all (\<lambda>f. list_all (\<lambda>v. v < n0) f) (bm_faces bm)"
  shows "for_each (\<lambda>i b. faces_new b (prism_faces n n0 ! i)) [0..<k] bm
           = Inr (bm\<lparr>bm_faces := bm_faces bm @ take k (prism_faces n n0)\<rparr>)"
  using k
proof (induction k)
  case 0
  then show ?case by simp
next
  case (Suc k)
  then have k: "k < n" by simp
  let ?q = "prism_faces n n0 ! k"
  let ?b = "bm\<lparr>bm_faces := bm_faces bm @ take k (prism_faces n n0)\<rparr>"
  have q: "?q = [n0 + k, n0 + n + k, n0 + n + (k + 1) mod n, n0 + (k + 1) mod n]"
    by (rule prism_faces_nth [OF k])
  have d: "distinct ?q"
    unfolding q using n k by (intro prism_face_distinct) simp_all
  have "set g \<noteq> set ?q" if "g \<in> set (bm_faces bm)" for g
  proof
    assume "set g = set ?q"
    then have "n0 + k \<in> set g" by (simp add: q)
    moreover have "\<forall>v \<in> set g. v < n0"
      using old that by (auto simp: list_all_iff)
    ultimately show False by auto
  qed
  moreover have "set g \<noteq> set ?q" if "g \<in> set (take k (prism_faces n n0))" for g
  proof
    assume e: "set g = set ?q"
    from that obtain j where j: "j < k" and g: "g = prism_faces n n0 ! j"
      by (auto simp: in_set_conv_nth length_prism_faces)
    have jn: "j < n" using j k by simp
    have "j = k"
      using e unfolding g q prism_faces_nth [OF jn]
      by (rule prism_face_set_inj [OF n k jn])
    with j show False by simp
  qed
  ultimately have ex: "\<not> list_ex (\<lambda>g. set g = set ?q) (bm_faces ?b)"
    by (auto simp: list_ex_iff)
  have "faces_new ?b ?q = Inr (?b\<lparr>bm_faces := bm_faces ?b @ [?q]\<rparr>)"
    using d ex by (simp add: faces_new_def)
  then show ?case
    using Suc.IH k
    by (simp add: for_each_append prism_faces_take_Suc del: upt_Suc add: upt_Suc_append)
qed

lemma lateral_faces_body:
  "for_each (\<lambda>i b. faces_new b
                 [[n0..<n0 + n] ! i, [n0 + n..<n0 + 2 * n] ! i,
                  [n0 + n..<n0 + 2 * n] ! ((i + 1) mod n), [n0..<n0 + n] ! ((i + 1) mod n)])
            xs bm
   = for_each (\<lambda>i b. faces_new b (prism_faces n n0 ! i)) xs bm"
  if "\<forall>i \<in> set xs. i < n"
  using that
proof (induction xs arbitrary: bm)
  case Nil
  then show ?case by simp
next
  case (Cons i xs)
  then have i: "i < n" by simp
  then have j: "(i + 1) mod n < n" by simp
  have "[[n0..<n0 + n] ! i, [n0 + n..<n0 + 2 * n] ! i,
         [n0 + n..<n0 + 2 * n] ! ((i + 1) mod n), [n0..<n0 + n] ! ((i + 1) mod n)]
        = prism_faces n n0 ! i"
    unfolding prism_faces_nth [OF i] using i j by (simp del: One_nat_def)
  then show ?case
    using Cons by (simp del: One_nat_def split: sum.splits)
qed

lemma lateral_faces_ok:
  assumes "n = 0 \<or> 3 \<le> n"
    and "list_all (\<lambda>f. list_all (\<lambda>v. v < n0) f) (bm_faces bm)"
  shows "lateral_faces [n0..<n0 + n] [n0 + n..<n0 + 2 * n] bm
           = Inr (bm\<lparr>bm_faces := bm_faces bm @ prism_faces n n0\<rparr>)"
proof (cases "n = 0")
  case True
  then show ?thesis by (simp add: lateral_faces_def prism_faces_def)
next
  case False
  with assms have n: "3 \<le> n" by simp
  have "lateral_faces [n0..<n0 + n] [n0 + n..<n0 + 2 * n] bm
          = for_each (\<lambda>i b. faces_new b (prism_faces n n0 ! i)) [0..<n] bm"
    unfolding lateral_faces_def
    using lateral_faces_body [of "[0..<n]" n n0 bm] by simp
  also have "\<dots> = Inr (bm\<lparr>bm_faces := bm_faces bm @ take n (prism_faces n n0)\<rparr>)"
    by (rule lateral_loop [OF n le_refl assms(2)])
  finally show ?thesis by (simp add: length_prism_faces)
qed

lemma faces_in_range_old:
  "faces_in_range bm \<Longrightarrow>
   list_all (\<lambda>f. list_all (\<lambda>v. v < length (bm_verts bm)) f) (bm_faces (bm\<lparr>bm_verts := vs\<rparr>))"
  by (simp add: faces_in_range_def)

lemma process_edge_ok:
  assumes n: "length profile_shape = 0 \<or> 3 \<le> length profile_shape"
    and r: "faces_in_range bm"
  shows "process_edge profile_shape [v1, v2] (bm, pac) =
     Inr (bm\<lparr>bm_verts := bm_verts bm @ prism_verts profile_shape [v1, v2],
             bm_faces := bm_faces bm @ prism_faces (length profile_shape) (length (bm_verts bm))\<rparr>,
          dict_append v2 [length (bm_verts bm) + length profile_shape..<
                          length (bm_verts bm) + 2 * length profile_shape]
            (dict_append v1 [length (bm_verts bm)..<length (bm_verts bm) + length profile_shape]
               pac))"
proof -
  let ?len = "length profile_shape"
  let ?off = "length (bm_verts bm)"
  let ?pa = "edge_profiles profile_shape (vec_of v1) (vec_of v2) ! 0"
  let ?pb = "edge_profiles profile_shape (vec_of v1) (vec_of v2) ! 1"
  have lf: "lateral_faces [?off..<?off + ?len] [?off + ?len..<?off + 2 * ?len]
              (bm\<lparr>bm_verts := bm_verts bm @ ?pa @ ?pb\<rparr>)
          = Inr (bm\<lparr>bm_verts := bm_verts bm @ ?pa @ ?pb,
                    bm_faces := bm_faces bm @ prism_faces ?len ?off\<rparr>)"
    using lateral_faces_ok [of ?len ?off "bm\<lparr>bm_verts := bm_verts bm @ ?pa @ ?pb\<rparr>"] n
      faces_in_range_old [OF r, of "bm_verts bm @ ?pa @ ?pb"]
    by simp
  show ?thesis
    unfolding process_edge.simps Let_def verts_new_all_eq
    using lf
    by (simp add: edge_profiles_length prism_verts_def add.assoc mult_2)
qed

lemma process_edge_skip:
  "length e \<noteq> 2 \<Longrightarrow> process_edge profile_shape e (bm, pac) = Inr (bm, pac)"
proof (cases e)
  case Nil
  then show ?thesis by simp
next
  case (Cons a e1)
  assume l: "length e \<noteq> 2"
  show ?thesis
  proof (cases e1)
    case Nil
    with Cons show ?thesis by simp
  next
    case (Cons b e2)
    with l \<open>e = a # e1\<close> obtain c e3 where "e2 = c # e3" by (cases e2) auto
    with Cons \<open>e = a # e1\<close> show ?thesis by simp
  qed
qed

lemma process_edge_one_point:
  assumes "length profile_shape = 1"
  shows "process_edge profile_shape [v1, v2] (bm, pac)
           = Inl (ValueError ''faces.new(...): found the same (BMVert) used multiple times'')"
  using assms
  by (simp add: Let_def verts_new_all_eq edge_profiles_length lateral_faces_def faces_new_def)

lemma process_edge_two_points:
  assumes "length profile_shape = 2"
  shows "process_edge profile_shape [v1, v2] (bm, pac)
           = Inl (ValueError ''faces.new(verts): face already exists'')"
proof -
  have u: "[0..<2] = [0, 1]" by (simp add: upt_rec)
  have s: "{a, b, c, d} = {d, c, b, a}" for a b c d :: nat by auto
  show ?thesis
    using assms
    by (simp add: Let_def verts_new_all_eq edge_profiles_length lateral_faces_def
          faces_new_def u nth_Cons' upt_conv_Cons s insert_commute)
qed

lemma faces_in_range_prism:
  assumes r: "faces_in_range bm" and l: "length vs = 2 * n"
  shows "faces_in_range (bm\<lparr>bm_verts := bm_verts bm @ vs,
                            bm_faces := bm_faces bm @ prism_faces n (length (bm_verts bm))\<rparr>)"
proof -
  have "v < length (bm_verts bm) + 2 * n"
    if "f \<in> set (prism_faces n (length (bm_verts bm)))" and "v \<in> set f" for f v
  proof -
    from that(1) obtain i where i: "i < n"
      and f: "f = [length (bm_verts bm) + i, length (bm_verts bm) + n + i,
                   length (bm_verts bm) + n + (i + 1) mod n, length (bm_verts bm) + (i + 1) mod n]"
      by (auto simp: prism_faces_def simp del: One_nat_def)
    have "(i + 1) mod n < n" using i by simp
    then have "(i + 1) mod n < 2 * n" by linarith
    with that(2) i show ?thesis unfolding f by auto
  qed
  moreover have "v < length (bm_verts bm) + 2 * n" if "f \<in> set (bm_faces bm)" and "v \<in> set f" for f v
    using r that by (fastforce simp: faces_in_range_def list_all_iff)
  ultimately show ?thesis
    by (auto simp: faces_in_range_def list_all_iff l)
qed

lemma length_prism_verts:
  "length (prism_verts profile_shape e) = (if length e = 2 then 2 * length profile_shape else 0)"
proof (cases "length e = 2")
  case True
  then obtain v1 v2 where "e = [v1, v2]" using length_two by blast
  then show ?thesis by (simp add: prism_verts_def edge_profiles_length)
next
  case False
  then show ?thesis
    by (cases e; cases "tl e"; cases "tl (tl e)") (auto simp: prism_verts_def)
qed

declare process_edge.simps [simp del]

lemma edge_loop_closed:
  assumes n: "length profile_shape = 0 \<or> 3 \<le> length profile_shape"
    and r: "faces_in_range bm"
  shows "for_each (process_edge profile_shape) es (bm, pac) =
     Inr (bm\<lparr>bm_verts := bm_verts bm @ concat (map (prism_verts profile_shape) es),
             bm_faces := bm_faces bm @ pass_faces (length profile_shape) (length (bm_verts bm)) es\<rparr>,
          pass_corners (length profile_shape) (length (bm_verts bm)) es pac)
     \<and> faces_in_range
          (bm\<lparr>bm_verts := bm_verts bm @ concat (map (prism_verts profile_shape) es),
              bm_faces := bm_faces bm @ pass_faces (length profile_shape) (length (bm_verts bm)) es\<rparr>)"
  using r
proof (induction es arbitrary: bm pac)
  case Nil
  then show ?case by simp
next
  case (Cons e es)
  show ?case
  proof (cases "length e = 2")
    case True
    then obtain v1 v2 where e: "e = [v1, v2]" using length_two by blast
    let ?bm = "bm\<lparr>bm_verts := bm_verts bm @ prism_verts profile_shape [v1, v2],
             bm_faces := bm_faces bm @ prism_faces (length profile_shape) (length (bm_verts bm))\<rparr>"
    have r': "faces_in_range ?bm"
      by (rule faces_in_range_prism [OF Cons.prems]) (simp add: length_prism_verts)
    show ?thesis
      using Cons.IH [OF r']
      by (simp add: e process_edge_ok [OF n Cons.prems] length_prism_verts add.assoc)
  next
    case False
    then have "prism_verts profile_shape e = []"
      using length_prism_verts [of profile_shape e] by simp
    then show ?thesis
      using Cons.IH [OF Cons.prems] False by (simp add: process_edge_skip)
  qed
qed

lemma edge_pass_closed:
  assumes "length profile_shape = 0 \<or> 3 \<le> length profile_shape"
  shows "edge_pass profile_shape es =
     Inr (\<lparr>bm_verts = concat (map (prism_verts profile_shape) es),
           bm_faces = pass_faces (length profile_shape) 0 es\<rparr>,
          pass_corners (length profile_shape) 0 es [])"
  using edge_loop_closed [OF assms, of bmesh_new es "[]"]
  by (simp add: edge_pass_def bmesh_new_def faces_in_range_def)

lemma float_value_float_of: "float_value (float_of x) = x"
  by (simp add: float_value_def float_of_def)

lemma vec_of_fv: "vec_of (fv x y z) = Vector x y z"
  by (simp add: vec_of_def fv_def float_value_float_of)

lemma translated_quad_coplanar:
  "dot (vsub (vadd p t2) (vadd p t1))
       (cross (vsub (vadd q t2) (vadd p t1)) (vsub (vadd q t1) (vadd p t1))) = 0"
  by (cases p; cases q; cases t1; cases t2) (simp add: algebra_simps)

lemma prism_verts_eq:
  "prism_verts profile_shape [v1, v2] =
     (let r = rotation_difference_matrix (normalized (vsub (vec_of v2) (vec_of v1))) (Vector 0 0 1)
      in map (\<lambda>p. vadd (mat3_vec r p) (vec_of v1)) profile_shape
         @ map (\<lambda>p. vadd (mat3_vec r p) (vec_of v2)) profile_shape)"
  by (simp add: prism_verts_def edge_profiles_eq Let_def)

lemma prism_face_planar:
  assumes i: "i < length profile_shape"
  shows "planar_quad (bm\<lparr>bm_verts := bm_verts bm @ prism_verts profile_shape [v1, v2], bm_faces := fs\<rparr>)
           (prism_faces (length profile_shape) (length (bm_verts bm)) ! i)"
proof -
  let ?len = "length profile_shape"
  let ?off = "length (bm_verts bm)"
  let ?r = "rotation_difference_matrix (normalized (vsub (vec_of v2) (vec_of v1))) (Vector 0 0 1)"
  let ?j = "(i + 1) mod ?len"
  let ?vs = "bm_verts bm @ prism_verts profile_shape [v1, v2]"
  have j: "?j < ?len"
    by (rule mod_less_divisor) (use i in auto)
  have s: "prism_verts profile_shape [v1, v2] ! k = vadd (mat3_vec ?r (profile_shape ! k)) (vec_of v1)"
    if "k < ?len" for k
    using that by (simp add: prism_verts_eq Let_def nth_append)
  have e: "prism_verts profile_shape [v1, v2] ! (?len + k)
             = vadd (mat3_vec ?r (profile_shape ! k)) (vec_of v2)"
    if "k < ?len" for k
    using that by (simp add: prism_verts_eq Let_def nth_append)
  have sel: "bm_verts (bm\<lparr>bm_verts := ?vs, bm_faces := fs\<rparr>) = ?vs"
    by simp
  have ix: "?vs ! (?off + k) = prism_verts profile_shape [v1, v2] ! k"
           "?vs ! (?off + ?len + k) = prism_verts profile_shape [v1, v2] ! (?len + k)" for k
    by (simp_all add: nth_append add.assoc)
  show ?thesis
    unfolding planar_quad_def face_coords_def prism_faces_nth [OF i]
    by (simp only: list.map sel ix s [OF i] s [OF j] e [OF i] e [OF j] list.case
          translated_quad_coplanar)
qed

lemma length_pass_verts:
  "length (concat (map (prism_verts profile_shape) es))
     = 2 * length profile_shape * length (filter (\<lambda>e. length e = 2) es)"
  by (induction es) (simp_all add: length_prism_verts)

lemma length_pass_faces:
  "length (pass_faces n n0 es) = n * length (filter (\<lambda>e. length e = 2) es)"
  by (induction es arbitrary: n0) (simp_all add: length_prism_faces)

text \<open>
  C3 (amended). For a profile of \<open>N\<close> points with \<open>N\<close> other than 1 and 2, the loop over
  the edges returns for every list of edges, and the mesh it returns has \<open>2N\<close> vertices
  and \<open>N\<close> faces for every edge of two vertices, every face over vertices of the mesh.
  From any state whose faces are over its vertices, the loop body for an edge from \<open>v1\<close>
  to \<open>v2\<close> returns as well: the earlier vertices and faces stay, \<open>2N\<close> vertices are
  added, the first \<open>N\<close> carrying the profile instance at \<open>v1\<close> and the next \<open>N\<close> the one
  at \<open>v2\<close>, and \<open>N\<close> faces are added, face \<open>i\<close> being
  \<open>[start i, end i, end ((i + 1) mod N), start ((i + 1) mod N)]\<close>. Each of these faces has
  four distinct vertices, all among the \<open>2N\<close> new ones, and is planar.
\<close>

theorem prism_builder:
  assumes "length profile_shape \<noteq> 1" and "length profile_shape \<noteq> 2"
  shows
   "(\<exists>new_bm corners.
        edge_pass profile_shape es = Inr (new_bm, corners)
        \<and> faces_in_range new_bm
        \<and> length (bm_verts new_bm)
            = 2 * length profile_shape * length (filter (\<lambda>e. length e = 2) es)
        \<and> length (bm_faces new_bm)
            = length profile_shape * length (filter (\<lambda>e. length e = 2) es))
    \<and> (faces_in_range bm \<longrightarrow>
        (\<exists>bm' pac'.
           process_edge profile_shape [v1, v2] (bm, pac) = Inr (bm', pac')
           \<and> faces_in_range bm'
           \<and> (let n = length profile_shape;
                   n0 = length (bm_verts bm);
                   start_verts = [n0..<n0 + n];
                   end_verts = [n0 + n..<n0 + 2 * n];
                   new_faces = drop (length (bm_faces bm)) (bm_faces bm')
               in take n0 (bm_verts bm') = bm_verts bm
                  \<and> length (bm_verts bm') = n0 + 2 * n
                  \<and> map (\<lambda>v. bm_verts bm' ! v) start_verts
                      = edge_profiles profile_shape (vec_of v1) (vec_of v2) ! 0
                  \<and> map (\<lambda>v. bm_verts bm' ! v) end_verts
                      = edge_profiles profile_shape (vec_of v1) (vec_of v2) ! 1
                  \<and> take (length (bm_faces bm)) (bm_faces bm') = bm_faces bm
                  \<and> new_faces = map (\<lambda>i. [start_verts ! i, end_verts ! i,
                                            end_verts ! ((i + 1) mod n),
                                            start_verts ! ((i + 1) mod n)])
                                     [0..<n]
                  \<and> length new_faces = n
                  \<and> (\<forall>f \<in> set new_faces.
                        length f = 4 \<and> distinct f \<and> set f \<subseteq> {n0..<n0 + 2 * n}
                        \<and> planar_quad bm' f))))"
proof (intro conjI impI)
  have n: "length profile_shape = 0 \<or> 3 \<le> length profile_shape"
    using assms by linarith
  show "\<exists>new_bm corners.
        edge_pass profile_shape es = Inr (new_bm, corners)
        \<and> faces_in_range new_bm
        \<and> length (bm_verts new_bm)
            = 2 * length profile_shape * length (filter (\<lambda>e. length e = 2) es)
        \<and> length (bm_faces new_bm)
            = length profile_shape * length (filter (\<lambda>e. length e = 2) es)"
    using edge_loop_closed [OF n, of bmesh_new es "[]"]
    by (simp add: edge_pass_def bmesh_new_def faces_in_range_def length_pass_verts
          length_pass_faces)
next
  assume r: "faces_in_range bm"
  have n: "length profile_shape = 0 \<or> 3 \<le> length profile_shape"
    using assms by linarith
  define n where "n = length profile_shape"
  define n0 where "n0 = length (bm_verts bm)"
  define p0 where "p0 = edge_profiles profile_shape (vec_of v1) (vec_of v2) ! 0"
  define p1 where "p1 = edge_profiles profile_shape (vec_of v1) (vec_of v2) ! 1"
  define bm' where "bm' = bm\<lparr>bm_verts := bm_verts bm @ prism_verts profile_shape [v1, v2],
             bm_faces := bm_faces bm @ prism_faces n n0\<rparr>"
  define pac' where "pac' = dict_append v2 [n0 + n..<n0 + 2 * n] (dict_append v1 [n0..<n0 + n] pac)"
  have len: "length p0 = n" "length p1 = n"
    by (simp_all add: p0_def p1_def n_def edge_profiles_length)
  have pv: "prism_verts profile_shape [v1, v2] = p0 @ p1"
    by (simp add: prism_verts_def p0_def p1_def)
  have pe: "process_edge profile_shape [v1, v2] (bm, pac) = Inr (bm', pac')"
    unfolding bm'_def pac'_def n_def n0_def by (rule process_edge_ok [OF n r])
  have r': "faces_in_range bm'"
    unfolding bm'_def n_def n0_def
    by (rule faces_in_range_prism [OF r]) (simp add: length_prism_verts)
  have vs: "bm_verts bm' = bm_verts bm @ p0 @ p1"
    by (simp add: bm'_def pv)
  have fs: "bm_faces bm' = bm_faces bm @ prism_faces n n0"
    by (simp add: bm'_def)
  have quads: "map (\<lambda>i. [[n0..<n0 + n] ! i, [n0 + n..<n0 + 2 * n] ! i,
                         [n0 + n..<n0 + 2 * n] ! ((i + 1) mod n),
                         [n0..<n0 + n] ! ((i + 1) mod n)]) [0..<n]
               = prism_faces n n0"
  proof (rule nth_equalityI)
    show "length (map (\<lambda>i. [[n0..<n0 + n] ! i, [n0 + n..<n0 + 2 * n] ! i,
                         [n0 + n..<n0 + 2 * n] ! ((i + 1) mod n),
                         [n0..<n0 + n] ! ((i + 1) mod n)]) [0..<n])
          = length (prism_faces n n0)"
      by (simp add: length_prism_faces)
  next
    fix i
    assume "i < length (map (\<lambda>i. [[n0..<n0 + n] ! i, [n0 + n..<n0 + 2 * n] ! i,
                         [n0 + n..<n0 + 2 * n] ! ((i + 1) mod n),
                         [n0..<n0 + n] ! ((i + 1) mod n)]) [0..<n])"
    then have i: "i < n" by simp
    then have j: "(i + 1) mod n < n" by simp
    show "map (\<lambda>i. [[n0..<n0 + n] ! i, [n0 + n..<n0 + 2 * n] ! i,
                         [n0 + n..<n0 + 2 * n] ! ((i + 1) mod n),
                         [n0..<n0 + n] ! ((i + 1) mod n)]) [0..<n] ! i
          = prism_faces n n0 ! i"
      unfolding prism_faces_nth [OF i] using i j by (simp del: One_nat_def)
  qed
  have a: "take n0 (bm_verts bm') = bm_verts bm"
    by (simp add: vs n0_def)
  have b: "length (bm_verts bm') = n0 + 2 * n"
    using len by (simp add: vs n0_def)
  have c: "map (\<lambda>v. bm_verts bm' ! v) [n0..<n0 + n] = p0"
    using len(1) by (intro nth_equalityI) (simp_all add: vs n0_def nth_append)
  have d: "map (\<lambda>v. bm_verts bm' ! v) [n0 + n..<n0 + 2 * n] = p1"
    using len by (intro nth_equalityI) (simp_all add: vs n0_def nth_append)
  have e: "take (length (bm_faces bm)) (bm_faces bm') = bm_faces bm"
    by (simp add: fs)
  have f: "drop (length (bm_faces bm)) (bm_faces bm') = prism_faces n n0"
    by (simp add: fs)
  have g: "length f = 4 \<and> distinct f \<and> set f \<subseteq> {n0..<n0 + 2 * n} \<and> planar_quad bm' f"
    if "f \<in> set (prism_faces n n0)" for f
  proof -
    from that obtain i where i: "i < n" and fi: "f = prism_faces n n0 ! i"
      by (auto simp: in_set_conv_nth length_prism_faces)
    have n3: "3 \<le> n" using n i by (auto simp: n_def)
    have q: "f = [n0 + i, n0 + n + i, n0 + n + (i + 1) mod n, n0 + (i + 1) mod n]"
      unfolding fi by (rule prism_faces_nth [OF i])
    have j: "(i + 1) mod n < n" using i by simp
    then have j2: "(i + 1) mod n < 2 * n" by linarith
    have "distinct f"
      unfolding q using n3 i by (intro prism_face_distinct) simp_all
    moreover have "set f \<subseteq> {n0..<n0 + 2 * n}"
      unfolding q using i j j2 by (auto simp del: One_nat_def)
    moreover have "planar_quad bm' f"
      unfolding fi bm'_def n_def n0_def
      by (rule prism_face_planar) (use i in \<open>simp add: n_def\<close>)
    moreover have "length f = 4" by (simp add: q)
    ultimately show ?thesis by simp
  qed
  have body: "let n = length profile_shape;
                   n0 = length (bm_verts bm);
                   start_verts = [n0..<n0 + n];
                   end_verts = [n0 + n..<n0 + 2 * n];
                   new_faces = drop (length (bm_faces bm)) (bm_faces bm')
               in take n0 (bm_verts bm') = bm_verts bm
                  \<and> length (bm_verts bm') = n0 + 2 * n
                  \<and> map (\<lambda>v. bm_verts bm' ! v) start_verts
                      = edge_profiles profile_shape (vec_of v1) (vec_of v2) ! 0
                  \<and> map (\<lambda>v. bm_verts bm' ! v) end_verts
                      = edge_profiles profile_shape (vec_of v1) (vec_of v2) ! 1
                  \<and> take (length (bm_faces bm)) (bm_faces bm') = bm_faces bm
                  \<and> new_faces = map (\<lambda>i. [start_verts ! i, end_verts ! i,
                                            end_verts ! ((i + 1) mod n),
                                            start_verts ! ((i + 1) mod n)])
                                     [0..<n]
                  \<and> length new_faces = n
                  \<and> (\<forall>f \<in> set new_faces.
                        length f = 4 \<and> distinct f \<and> set f \<subseteq> {n0..<n0 + 2 * n}
                        \<and> planar_quad bm' f)"
    unfolding Let_def n_def [symmetric] n0_def [symmetric] p0_def [symmetric] p1_def [symmetric]
      quads f
    using a b c d e g by (simp add: length_prism_faces)
  show "\<exists>bm' pac'.
           process_edge profile_shape [v1, v2] (bm, pac) = Inr (bm', pac')
           \<and> faces_in_range bm'
           \<and> (let n = length profile_shape;
                   n0 = length (bm_verts bm);
                   start_verts = [n0..<n0 + n];
                   end_verts = [n0 + n..<n0 + 2 * n];
                   new_faces = drop (length (bm_faces bm)) (bm_faces bm')
               in take n0 (bm_verts bm') = bm_verts bm
                  \<and> length (bm_verts bm') = n0 + 2 * n
                  \<and> map (\<lambda>v. bm_verts bm' ! v) start_verts
                      = edge_profiles profile_shape (vec_of v1) (vec_of v2) ! 0
                  \<and> map (\<lambda>v. bm_verts bm' ! v) end_verts
                      = edge_profiles profile_shape (vec_of v1) (vec_of v2) ! 1
                  \<and> take (length (bm_faces bm)) (bm_faces bm') = bm_faces bm
                  \<and> new_faces = map (\<lambda>i. [start_verts ! i, end_verts ! i,
                                            end_verts ! ((i + 1) mod n),
                                            start_verts ! ((i + 1) mod n)])
                                     [0..<n]
                  \<and> length new_faces = n
                  \<and> (\<forall>f \<in> set new_faces.
                        length f = 4 \<and> distinct f \<and> set f \<subseteq> {n0..<n0 + 2 * n}
                        \<and> planar_quad bm' f))"
    using pe r' body by blast
qed

lemma faces_in_range_new: "faces_in_range bmesh_new"
  by (simp add: faces_in_range_def bmesh_new_def)

text \<open>
  The square profile of size 1 on the edge from \<open>(0, 0, 0)\<close> to \<open>(0, 0, 1)\<close>, from the
  empty mesh.
\<close>

theorem prism_builder_witness:
  "process_edge [Vector (- 1) (- 1) 0, Vector 1 (- 1) 0, Vector 1 1 0, Vector (- 1) 1 0]
     [fv 0 0 0, fv 0 0 1] (bmesh_new, [])
   = Inr (\<lparr>bm_verts =
             [Vector (- 1) (- 1) 0, Vector 1 (- 1) 0, Vector 1 1 0, Vector (- 1) 1 0,
              Vector (- 1) (- 1) 1, Vector 1 (- 1) 1, Vector 1 1 1, Vector (- 1) 1 1],
           bm_faces = [[0, 4, 5, 1], [1, 5, 6, 2], [2, 6, 7, 3], [3, 7, 4, 0]]\<rparr>,
          [(fv 0 0 0, [[0, 1, 2, 3]]), (fv 0 0 1, [[4, 5, 6, 7]])])
   \<and> planar_quad
        \<lparr>bm_verts =
             [Vector (- 1) (- 1) 0, Vector 1 (- 1) 0, Vector 1 1 0, Vector (- 1) 1 0,
              Vector (- 1) (- 1) 1, Vector 1 (- 1) 1, Vector 1 1 1, Vector (- 1) 1 1],
           bm_faces = [[0, 4, 5, 1], [1, 5, 6, 2], [2, 6, 7, 3], [3, 7, 4, 0]]\<rparr>
        [3, 7, 4, 0]"
proof -
  let ?sq = "[Vector (- 1) (- 1) 0, Vector 1 (- 1) 0, Vector 1 1 0, Vector (- 1) 1 0]"
  let ?bm = "\<lparr>bm_verts =
             [Vector (- 1) (- 1) 0, Vector 1 (- 1) 0, Vector 1 1 0, Vector (- 1) 1 0,
              Vector (- 1) (- 1) 1, Vector 1 (- 1) 1, Vector 1 1 1, Vector (- 1) 1 1],
           bm_faces = [[0, 4, 5, 1], [1, 5, 6, 2], [2, 6, 7, 3], [3, 7, 4, 0]]\<rparr>"
  have h1: "length ?sq \<noteq> 1" and h2: "length ?sq \<noteq> 2" by simp_all
  have ep: "edge_profiles ?sq (Vector 0 0 0) (Vector 0 0 1) =
     [[Vector (- 1) (- 1) 0, Vector 1 (- 1) 0, Vector 1 1 0, Vector (- 1) 1 0],
      [Vector (- 1) (- 1) 1, Vector 1 (- 1) 1, Vector 1 1 1, Vector (- 1) 1 1]]"
    by (simp add: edge_profiles_eq normalized_def vlength_def rotation_difference_matrix_def
          identity3_def)
  have up: "[0..<4] = [0, 1, 2, 3]" "[4..<8] = [4, 5, 6, 7]"
    by (simp_all add: upt_rec)
  have same: "\<not> same_key (fv 0 0 0) (fv 0 0 1)"
    by (simp add: same_key_def vec_of_fv)
  have pv: "prism_verts ?sq [fv 0 0 0, fv 0 0 1] =
             [Vector (- 1) (- 1) 0, Vector 1 (- 1) 0, Vector 1 1 0, Vector (- 1) 1 0,
              Vector (- 1) (- 1) 1, Vector 1 (- 1) 1, Vector 1 1 1, Vector (- 1) 1 1]"
    by (simp add: prism_verts_def vec_of_fv ep)
  have pf: "prism_faces 4 0 = [[0, 4, 5, 1], [1, 5, 6, 2], [2, 6, 7, 3], [3, 7, 4, 0]]"
    by (simp add: prism_faces_def up)
  have l4: "length ?sq = 4" by simp
  have ok: "length ?sq = 0 \<or> 3 \<le> length ?sq" by simp
  have pe: "process_edge ?sq [fv 0 0 0, fv 0 0 1] (bmesh_new, [])
              = Inr (?bm, [(fv 0 0 0, [[0, 1, 2, 3]]), (fv 0 0 1, [[4, 5, 6, 7]])])"
    unfolding process_edge_ok [OF ok faces_in_range_new] l4 pv
    by (simp add: bmesh_new_def pf up same)
  from prism_builder [OF h1 h2, of "[]" bmesh_new "fv 0 0 0" "fv 0 0 1" "[]"] faces_in_range_new
  have "\<exists>bm' pac'. process_edge ?sq [fv 0 0 0, fv 0 0 1] (bmesh_new, []) = Inr (bm', pac')
          \<and> (\<forall>f \<in> set (drop (length (bm_faces bmesh_new)) (bm_faces bm')). planar_quad bm' f)"
    unfolding Let_def by blast
  with pe have "\<forall>f \<in> set (bm_faces ?bm). planar_quad ?bm f"
    by (simp add: bmesh_new_def)
  then have "planar_quad ?bm [3, 7, 4, 0]"
    by simp
  with pe show ?thesis by simp
qed

text \<open>
  C3 as stated fails for a profile of two points, which the round profile of two segments
  is: the second lateral face has the vertices of the first, the host refuses it, and the
  loop ends with that exception instead of \<open>N\<close> faces.
\<close>

theorem prism_builder_two_points:
  "create_profile ''ROUND'' 1 2 = Inr [Vector 1 0 0, Vector (- 1) 0 0]
   \<and> process_edge [Vector 1 0 0, Vector (- 1) 0 0] [fv 0 0 0, fv 0 0 1] (bmesh_new, [])
       = Inl (ValueError ''faces.new(verts): face already exists'')
   \<and> edge_pass [Vector 1 0 0, Vector (- 1) 0 0] [[fv 0 0 0, fv 0 0 1]]
       = Inl (ValueError ''faces.new(verts): face already exists'')"
proof -
  have u: "[0..<2] = [0, 1]" by (simp add: upt_rec)
  have g: "create_profile ''ROUND'' 1 2 = Inr [Vector 1 0 0, Vector (- 1) 0 0]"
    by (simp add: create_profile_def u)
  have p: "process_edge [Vector 1 0 0, Vector (- 1) 0 0] [fv 0 0 0, fv 0 0 1] (bmesh_new, [])
       = Inl (ValueError ''faces.new(verts): face already exists'')"
    by (rule process_edge_two_points) simp
  show ?thesis
    using g p by (simp add: edge_pass_def)
qed

section \<open>Corner aggregator\<close>

lemma bucket_same_key: "same_key k k' \<Longrightarrow> lookup d k = lookup d k'"
  by (induction d) (auto simp: same_key_def)

lemma lookup_dict_append:
  "lookup (dict_append k vs d) k' =
     (if same_key k k' then Some (bucket d k @ [vs]) else lookup d k')"
  by (induction d) (auto simp: bucket_def same_key_def)

lemma bucket_dict_append:
  "bucket (dict_append k vs d) k' = bucket d k' @ (if same_key k k' then [vs] else [])"
  using bucket_same_key [of k k' d]
  by (simp add: bucket_def lookup_dict_append split: option.splits)

lemma keys_dict_append:
  "key_values (dict_append k vs d) =
     (if vec_of k \<in> set (key_values d) then key_values d
      else key_values d @ [vec_of k])"
  by (induction d) (force simp: same_key_def key_values_def)+

lemma distinct_dict_append:
  "distinct (key_values d) \<Longrightarrow> distinct (key_values (dict_append k vs d))"
  by (simp add: keys_dict_append)

lemma dict_append_lengths:
  assumes "\<forall>(k, ps) \<in> set d. \<forall>vs \<in> set ps. length vs = n" and "length ws = n"
  shows "\<forall>(k, ps) \<in> set (dict_append c ws d). \<forall>vs \<in> set ps. length vs = n"
  using assms by (induction d) (fastforce split: if_splits)+

lemma bucket_Nil: "bucket [] k = []"
  by (simp add: bucket_def)

lemma endpoints_Cons:
  "endpoints (e # es) = (if length e = 2 then e @ endpoints es else endpoints es)"
  by (simp add: endpoints_def)


lemma pass_corners_keys:
  "set (key_values (pass_corners n n0 es pac))
     = set (key_values pac) \<union> vec_of ` set (endpoints es)"
proof (induction es arbitrary: n0 pac)
  case Nil
  then show ?case by (simp add: endpoints_def)
next
  case (Cons e es)
  show ?case
  proof (cases "length e = 2")
    case True
    then obtain v1 v2 where e: "e = [v1, v2]" using length_two by blast
    show ?thesis
      by (simp add: e Cons.IH endpoints_Cons keys_dict_append) auto
  next
    case False
    then show ?thesis by (simp add: Cons.IH endpoints_Cons)
  qed
qed

lemma pass_corners_distinct:
  "distinct (key_values pac) \<Longrightarrow>
   distinct (key_values (pass_corners n n0 es pac))"
proof (induction es arbitrary: n0 pac)
  case Nil
  then show ?case by simp
next
  case (Cons e es)
  have "distinct (key_values (dict_append (e ! 1) [n0 + n..<n0 + 2 * n]
                                (dict_append (e ! 0) [n0..<n0 + n] pac)))"
    by (intro distinct_dict_append Cons.prems)
  then show ?case
    using Cons.prems by (simp add: Cons.IH)
qed

lemma pass_corners_bucket_length:
  "length (bucket (pass_corners n n0 es pac) k)
     = length (bucket pac k) + length (filter (\<lambda>p. same_key p k) (endpoints es))"
proof (induction es arbitrary: n0 pac)
  case Nil
  then show ?case by (simp add: endpoints_def)
next
  case (Cons e es)
  show ?case
  proof (cases "length e = 2")
    case True
    then obtain v1 v2 where e: "e = [v1, v2]" using length_two by blast
    show ?thesis
      by (simp add: e Cons.IH endpoints_Cons bucket_dict_append)
  next
    case False
    then show ?thesis by (simp add: Cons.IH endpoints_Cons)
  qed
qed

lemma pass_corners_lengths:
  assumes "\<forall>(k, ps) \<in> set pac. \<forall>vs \<in> set ps. length vs = n"
  shows "\<forall>(k, ps) \<in> set (pass_corners n n0 es pac). \<forall>vs \<in> set ps. length vs = n"
  using assms
proof (induction es arbitrary: n0 pac)
  case Nil
  then show ?case by simp
next
  case (Cons e es)
  show ?case
  proof (cases "length e = 2")
    case True
    have "\<forall>(k, ps) \<in> set (dict_append (e ! 1) [n0 + n..<n0 + 2 * n]
                              (dict_append (e ! 0) [n0..<n0 + n] pac)).
            \<forall>vs \<in> set ps. length vs = n"
      by (intro dict_append_lengths Cons.prems) simp_all
    then show ?thesis
      using True by (simp add: Cons.IH)
  next
    case False
    then show ?thesis using Cons.prems by (simp add: Cons.IH)
  qed
qed

text \<open>What a step and a loop that return have recorded, whatever the profile.\<close>

lemma faces_new_verts: "faces_new b f = Inr b' \<Longrightarrow> bm_verts b' = bm_verts b"
  by (auto simp: faces_new_def split: if_splits)

lemma for_each_faces_verts:
  "for_each (\<lambda>i b. faces_new b (f i)) xs b = Inr b' \<Longrightarrow> bm_verts b' = bm_verts b"
proof (induction xs arbitrary: b)
  case Nil
  then show ?case by simp
next
  case (Cons x xs)
  then show ?case
    by (auto split: sum.splits dest: faces_new_verts)
qed

lemma process_edge_returns:
  assumes "process_edge profile_shape [v1, v2] (bm, pac) = Inr (bm', pac')"
  shows "pac' = dict_append v2 [length (bm_verts bm) + length profile_shape..<
                               length (bm_verts bm) + 2 * length profile_shape]
                  (dict_append v1 [length (bm_verts bm)..<
                                   length (bm_verts bm) + length profile_shape] pac)"
    and "bm_verts bm' = bm_verts bm @ prism_verts profile_shape [v1, v2]"
  using assms
  by (auto simp: process_edge.simps Let_def verts_new_all_eq edge_profiles_length
        lateral_faces_def prism_verts_def add.assoc mult_2
        split: sum.splits dest!: for_each_faces_verts)

lemma edge_loop_returns:
  assumes "for_each (process_edge profile_shape) es (bm, pac) = Inr (bm', pac')"
  shows "pac' = pass_corners (length profile_shape) (length (bm_verts bm)) es pac"
  using assms
proof (induction es arbitrary: bm pac)
  case Nil
  then show ?case by simp
next
  case (Cons e es)
  show ?case
  proof (cases "length e = 2")
    case True
    then obtain v1 v2 where e: "e = [v1, v2]" using length_two by blast
    from Cons.prems obtain bm1 pac1
      where s: "process_edge profile_shape [v1, v2] (bm, pac) = Inr (bm1, pac1)"
        and r: "for_each (process_edge profile_shape) es (bm1, pac1) = Inr (bm', pac')"
      by (auto simp: e split: sum.splits)
    have l: "length (bm_verts bm1) = length (bm_verts bm) + 2 * length profile_shape"
      using process_edge_returns(2) [OF s] by (simp add: length_prism_verts)
    show ?thesis
      using Cons.IH [OF r] process_edge_returns(1) [OF s] by (simp add: e l)
  next
    case False
    with Cons.prems have "for_each (process_edge profile_shape) es (bm, pac) = Inr (bm', pac')"
      by (simp add: process_edge_skip)
    then show ?thesis
      using Cons.IH False by simp
  qed
qed

lemma edge_pass_returns:
  "edge_pass profile_shape es = Inr (bm, pac) \<Longrightarrow> pac = pass_corners (length profile_shape) 0 es []"
  using edge_loop_returns [of profile_shape es bmesh_new "[]" bm pac]
  by (simp add: edge_pass_def bmesh_new_def)

lemma bucket_process_edge:
  assumes "process_edge profile_shape [v1, v2] (bm, pac) = Inr (bm', pac')"
  shows "bucket pac' k =
     (let n = length profile_shape; n0 = length (bm_verts bm)
      in bucket pac k @ (if same_key v1 k then [[n0..<n0 + n]] else [])
                      @ (if same_key v2 k then [[n0 + n..<n0 + 2 * n]] else []))"
  unfolding process_edge_returns(1) [OF assms]
  by (simp add: Let_def bucket_dict_append)

lemma same_float_value:
  assumes "0 \<le> magnitude x" and "0 \<le> magnitude y"
  shows "float_value x = float_value y \<longleftrightarrow> same_float x y"
  using assms by (cases x; cases y) (auto simp: float_value_def same_float_def)

lemma same_key_floats:
  assumes "well_formed a" and "well_formed b"
  shows "same_key a b \<longleftrightarrow>
           same_float (fx a) (fx b) \<and> same_float (fy a) (fy b) \<and> same_float (fz a) (fz b)"
  using assms
  by (simp add: same_key_def vec_of_def well_formed_def same_float_value)

text \<open>
  C5 (amended). The keys of the dictionary are compared by value. The loop body appends
  the list of the start vertices to the bucket of the key equal in value to \<open>v1\<close> and the
  list of the end vertices to the bucket of the key equal in value to \<open>v2\<close>, and changes
  no other bucket. After the loop the keys have pairwise different values, their values
  are those of the ends of the edges of two vertices, and the bucket of a coordinate holds
  one list for every edge end equal to it in value. Two coordinates are equal in value
  exactly when each pair of components has one bit pattern or is a pair of zeros, of
  either sign: there is no tolerance, and \<open>+0.0\<close> and \<open>-0.0\<close> are one key.
\<close>

theorem corner_aggregator:
  "(process_edge profile_shape [v1, v2] (bm, pac) = Inr (bm', pac') \<longrightarrow>
      bucket pac' k =
        (let n = length profile_shape; n0 = length (bm_verts bm)
         in bucket pac k @ (if same_key v1 k then [[n0..<n0 + n]] else [])
                         @ (if same_key v2 k then [[n0 + n..<n0 + 2 * n]] else [])))
   \<and> (edge_pass profile_shape es = Inr (new_bm, corners) \<longrightarrow>
        distinct (key_values corners)
        \<and> set (key_values corners) = vec_of ` set (endpoints es)
        \<and> length (bucket corners k) = length (filter (\<lambda>p. same_key p k) (endpoints es)))
   \<and> (well_formed a \<and> well_formed b \<longrightarrow>
        (same_key a b \<longleftrightarrow>
           same_float (fx a) (fx b) \<and> same_float (fy a) (fy b) \<and> same_float (fz a) (fz b)))"
proof (intro conjI impI)
  assume "process_edge profile_shape [v1, v2] (bm, pac) = Inr (bm', pac')"
  then show "bucket pac' k =
        (let n = length profile_shape; n0 = length (bm_verts bm)
         in bucket pac k @ (if same_key v1 k then [[n0..<n0 + n]] else [])
                         @ (if same_key v2 k then [[n0 + n..<n0 + 2 * n]] else []))"
    by (rule bucket_process_edge)
next
  assume "edge_pass profile_shape es = Inr (new_bm, corners)"
  then have c: "corners = pass_corners (length profile_shape) 0 es []"
    by (rule edge_pass_returns)
  show "distinct (key_values corners)"
    unfolding c by (rule pass_corners_distinct) (simp add: key_values_def)
  show "set (key_values corners) = vec_of ` set (endpoints es)"
    unfolding c pass_corners_keys by (simp add: key_values_def)
  show "length (bucket corners k) = length (filter (\<lambda>p. same_key p k) (endpoints es))"
    unfolding c pass_corners_bucket_length by (simp add: bucket_Nil)
next
  assume "well_formed a \<and> well_formed b"
  then show "same_key a b \<longleftrightarrow>
           same_float (fx a) (fx b) \<and> same_float (fy a) (fy b) \<and> same_float (fz a) (fz b)"
    using same_key_floats by blast
qed

lemma triangle_pass:
  "edge_pass [Vector 0 1 0, Vector (- 1) (- 1) 0, Vector 1 (- 1) 0] es
     = Inr (\<lparr>bm_verts = concat (map (prism_verts [Vector 0 1 0, Vector (- 1) (- 1) 0, Vector 1 (- 1) 0]) es),
             bm_faces = pass_faces 3 0 es\<rparr>,
            pass_corners 3 0 es [])"
proof -
  have l: "length [Vector 0 1 0, Vector (- 1) (- 1) 0, Vector 1 (- 1) 0] = 3"
    by simp
  have ok: "length [Vector 0 1 0, Vector (- 1) (- 1) 0, Vector 1 (- 1) 0] = 0
            \<or> 3 \<le> length [Vector 0 1 0, Vector (- 1) (- 1) 0, Vector 1 (- 1) 0]"
    by simp
  show ?thesis
    unfolding edge_pass_closed [OF ok] l by (rule refl)
qed

lemma upt_threes:
  "[0..<3] = [0, 1, 2]" "[3..<6] = [3, 4, 5]" "[6..<9] = [6, 7, 8]" "[9..<12] = [9, 10, 11]"
  by (simp_all add: upt_rec)

text \<open>
  C5 as stated fails: \<open>(0.0, 0.0, 0.0)\<close> and \<open>(-0.0, -0.0, -0.0)\<close> differ in their bit
  patterns, and the two edge ends that have them share one bucket.
\<close>

theorem corner_key_signed_zero:
  "fv 0 0 0 \<noteq> FVector (Float True 0) (Float True 0) (Float True 0)
   \<and> edge_pass [Vector 0 1 0, Vector (- 1) (- 1) 0, Vector 1 (- 1) 0]
        [[fv 1 0 0, fv 0 0 0], [FVector (Float True 0) (Float True 0) (Float True 0), fv 0 0 1]]
      = Inr (\<lparr>bm_verts =
                concat (map (prism_verts [Vector 0 1 0, Vector (- 1) (- 1) 0, Vector 1 (- 1) 0])
                  [[fv 1 0 0, fv 0 0 0],
                   [FVector (Float True 0) (Float True 0) (Float True 0), fv 0 0 1]]),
              bm_faces =
                pass_faces 3 0
                  [[fv 1 0 0, fv 0 0 0],
                   [FVector (Float True 0) (Float True 0) (Float True 0), fv 0 0 1]]\<rparr>,
             [(fv 1 0 0, [[0, 1, 2]]),
              (fv 0 0 0, [[3, 4, 5], [6, 7, 8]]),
              (fv 0 0 1, [[9, 10, 11]])])"
proof -
  have z: "vec_of (FVector (Float True 0) (Float True 0) (Float True 0)) = Vector 0 0 0"
    by (simp add: vec_of_def float_value_def)
  have ne: "fv 0 0 0 \<noteq> FVector (Float True 0) (Float True 0) (Float True 0)"
    by (simp add: fv_def float_of_def)
  have "pass_corners 3 0
          [[fv 1 0 0, fv 0 0 0], [FVector (Float True 0) (Float True 0) (Float True 0), fv 0 0 1]] []
        = [(fv 1 0 0, [[0, 1, 2]]),
           (fv 0 0 0, [[3, 4, 5], [6, 7, 8]]),
           (fv 0 0 1, [[9, 10, 11]])]"
    by (simp add: same_key_def vec_of_fv z upt_threes)
  then show ?thesis
    using ne by (simp only: triangle_pass) simp
qed

text \<open>
  Two edge ends \<open>1 / 1048576\<close> apart have a bucket of one list each, two ends with
  the same coordinate share a bucket of two lists, the two zero vectors are one key, and
  the loop body for one edge records the end vertices at the edge's end.
\<close>

theorem corner_aggregator_witness:
  "length (bucket (pass_corners 3 0
             [[fv 0 0 0, fv 0 0 1], [fv (1 / 1048576) 0 1, fv 0 0 2]] []) (fv 0 0 1)) = 1
   \<and> length (bucket (pass_corners 3 0
             [[fv 0 0 0, fv 0 0 1], [fv (1 / 1048576) 0 1, fv 0 0 2]] [])
               (fv (1 / 1048576) 0 1)) = 1
   \<and> length (bucket (pass_corners 3 0
             [[fv 0 0 0, fv 0 0 1], [fv 0 0 1, fv 0 0 2]] []) (fv 0 0 1)) = 2
   \<and> same_key (fv 0 0 0) (FVector (Float True 0) (Float True 0) (Float True 0))
   \<and> bucket (pass_corners 3 0 [[fv 0 0 0, fv 0 0 1]] []) (fv 0 0 1) = [[3, 4, 5]]"
proof -
  let ?t = "[Vector 0 1 0, Vector (- 1) (- 1) 0, Vector 1 (- 1) 0]"
  let ?near = "[[fv 0 0 0, fv 0 0 1], [fv (1 / 1048576) 0 1, fv 0 0 2]]"
  let ?same = "[[fv 0 0 0, fv 0 0 1], [fv 0 0 1, fv 0 0 2]]"
  let ?z = "FVector (Float True 0) (Float True 0) (Float True 0)"
  have w: "well_formed (fv 0 0 0) \<and> well_formed ?z"
    by (simp add: well_formed_def fv_def float_of_def)
  have a: "length (bucket (pass_corners 3 0 ?near []) (fv 0 0 1)) = 1"
    using corner_aggregator [of ?t "fv 0 0 0" "fv 0 0 0" bmesh_new "[]" bmesh_new "[]" "fv 0 0 1"
        ?near _ "pass_corners 3 0 ?near []" "fv 0 0 0" ?z] triangle_pass [of ?near]
    by (simp add: endpoints_def same_key_def vec_of_fv)
  have b: "length (bucket (pass_corners 3 0 ?near []) (fv (1 / 1048576) 0 1)) = 1"
    using corner_aggregator [of ?t "fv 0 0 0" "fv 0 0 0" bmesh_new "[]" bmesh_new "[]"
        "fv (1 / 1048576) 0 1" ?near _ "pass_corners 3 0 ?near []" "fv 0 0 0" ?z]
      triangle_pass [of ?near]
    by (simp add: endpoints_def same_key_def vec_of_fv)
  have c: "length (bucket (pass_corners 3 0 ?same []) (fv 0 0 1)) = 2"
    using corner_aggregator [of ?t "fv 0 0 0" "fv 0 0 0" bmesh_new "[]" bmesh_new "[]" "fv 0 0 1"
        ?same _ "pass_corners 3 0 ?same []" "fv 0 0 0" ?z] triangle_pass [of ?same]
    by (simp add: endpoints_def same_key_def vec_of_fv)
  have d: "same_key (fv 0 0 0) ?z"
    using corner_aggregator [of ?t "fv 0 0 0" "fv 0 0 0" bmesh_new "[]" bmesh_new "[]" "fv 0 0 1"
        ?same bmesh_new "[]" "fv 0 0 0" ?z] w
    by (simp add: same_float_def fv_def float_of_def)
  have pe: "process_edge ?t [fv 0 0 0, fv 0 0 1] (bmesh_new, [])
            = Inr (\<lparr>bm_verts = concat (map (prism_verts ?t) [[fv 0 0 0, fv 0 0 1]]),
                    bm_faces = pass_faces 3 0 [[fv 0 0 0, fv 0 0 1]]\<rparr>,
                   pass_corners 3 0 [[fv 0 0 0, fv 0 0 1]] [])"
    using triangle_pass [of "[[fv 0 0 0, fv 0 0 1]]"]
    by (auto simp: edge_pass_def split: sum.splits)
  have u: "[Suc (Suc (Suc 0))..<6] = [3, 4, 5]"
    by (simp add: upt_rec)
  have e: "bucket (pass_corners 3 0 [[fv 0 0 0, fv 0 0 1]] []) (fv 0 0 1) = [[3, 4, 5]]"
    using corner_aggregator [of ?t "fv 0 0 0" "fv 0 0 1" bmesh_new "[]"
        "\<lparr>bm_verts = concat (map (prism_verts ?t) [[fv 0 0 0, fv 0 0 1]]),
          bm_faces = pass_faces 3 0 [[fv 0 0 0, fv 0 0 1]]\<rparr>"
        "pass_corners 3 0 [[fv 0 0 0, fv 0 0 1]] []" "fv 0 0 1"
        ?same bmesh_new "[]" "fv 0 0 0" ?z] pe
    unfolding Let_def
    by (simp add: bucket_Nil same_key_def vec_of_fv bmesh_new_def upt_threes u)
  from a b c d e show ?thesis by simp
qed

section \<open>Corners with several profile instances\<close>

lemma length_concat_uniform:
  "\<forall>vs \<in> set ps. length vs = n \<Longrightarrow> length (concat ps) = length ps * n"
  by (induction ps) simp_all

lemma create_profile_length:
  assumes "3 \<le> segments"
    and "create_profile shape_type psize segments = Inr profile_shape
         \<or> cwp_create_profile shape_type psize segments = Inr profile_shape"
  shows "3 \<le> length profile_shape"
  using assms by (auto simp: create_profile_def cwp_create_profile_def split: if_splits)


lemma corner_step_few:
  "length (concat corner_profiles) < 4 \<Longrightarrow> corner_step hull_op (corner, corner_profiles) new_bm = new_bm"
  by (simp add: close_corner_with_convex_hull_def)

lemma corner_step_hull:
  "1 < length corner_profiles \<Longrightarrow> 4 \<le> length (concat corner_profiles) \<Longrightarrow>
   corner_step hull_op (corner, corner_profiles) new_bm
     = convex_hull hull_op new_bm (concat corner_profiles)"
  by (simp add: close_corner_with_convex_hull_def)

declare corner_step.simps [simp del]

text \<open>
  C10 (amended). With at least three segments, a profile of either generator has at least
  three points; every list recorded at a corner has the profile's length, so a corner
  with more than one recorded instance has at least six vertices in total and its step is
  the call of the hull: the branch that leaves the corner uncapped is not taken.
\<close>

theorem multi_profile_corner_reaches_hull:
  assumes "3 \<le> segments"
    and "create_profile shape_type psize segments = Inr profile_shape
         \<or> cwp_create_profile shape_type psize segments = Inr profile_shape"
    and "edge_pass profile_shape es = Inr (new_bm, corners)"
    and "(corner, corner_profiles) \<in> set corners"
    and "1 < length corner_profiles"
  shows "3 \<le> length profile_shape
       \<and> 6 \<le> length (concat corner_profiles)
       \<and> close_corner_with_convex_hull hull_op bm corner_profiles
           = convex_hull hull_op bm (concat corner_profiles)
       \<and> corner_step hull_op (corner, corner_profiles) bm
           = convex_hull hull_op bm (concat corner_profiles)"
proof -
  have n: "3 \<le> length profile_shape"
    using create_profile_length [OF assms(1,2)] .
  have c: "corners = pass_corners (length profile_shape) 0 es []"
    using assms(3) by (rule edge_pass_returns)
  have "\<forall>(k, ps) \<in> set corners. \<forall>vs \<in> set ps. length vs = length profile_shape"
    unfolding c by (rule pass_corners_lengths) simp
  with assms(4) have "\<forall>vs \<in> set corner_profiles. length vs = length profile_shape"
    by auto
  then have "length (concat corner_profiles) = length corner_profiles * length profile_shape"
    by (rule length_concat_uniform)
  moreover have "2 * 3 \<le> length corner_profiles * length profile_shape"
    using assms(5) n by (intro mult_le_mono) simp_all
  ultimately have six: "6 \<le> length (concat corner_profiles)"
    by simp
  then have "close_corner_with_convex_hull hull_op bm corner_profiles
           = convex_hull hull_op bm (concat corner_profiles)"
    by (simp add: close_corner_with_convex_hull_def)
  moreover have "corner_step hull_op (corner, corner_profiles) bm
           = convex_hull hull_op bm (concat corner_profiles)"
    using six assms(5) by (simp add: corner_step_hull)
  ultimately show ?thesis using n six by simp
qed

text \<open>
  The triangle profile on two edges that share the end \<open>(0, 0, 1)\<close>.
\<close>

theorem multi_profile_corner_reaches_hull_witness:
  "(3::int) \<le> 3
   \<and> create_profile ''TRIANGLE'' 1 3 = Inr [Vector 0 1 0, Vector (- 1) (- 1) 0, Vector 1 (- 1) 0]
   \<and> pass_corners 3 0 [[fv 0 0 0, fv 0 0 1], [fv 0 0 1, fv 0 0 2]] []
        = [(fv 0 0 0, [[0, 1, 2]]), (fv 0 0 1, [[3, 4, 5], [6, 7, 8]]), (fv 0 0 2, [[9, 10, 11]])]
   \<and> 6 \<le> length (concat [[3, 4, 5], [6, 7, 8 :: nat]])
   \<and> corner_step (\<lambda>bm vs. [vs]) (fv 0 0 1, [[3, 4, 5], [6, 7, 8]]) bmesh_new
        = convex_hull (\<lambda>bm vs. [vs]) bmesh_new [3, 4, 5, 6, 7, 8]"
proof -
  let ?t = "[Vector 0 1 0, Vector (- 1) (- 1) 0, Vector 1 (- 1) 0]"
  let ?es = "[[fv 0 0 0, fv 0 0 1], [fv 0 0 1, fv 0 0 2]]"
  have h1: "(3::int) \<le> 3" by simp
  have h2: "create_profile ''TRIANGLE'' 1 3 = Inr ?t
            \<or> cwp_create_profile ''TRIANGLE'' 1 3 = Inr ?t"
    by (simp add: create_profile_def)
  have pc: "pass_corners 3 0 ?es []
        = [(fv 0 0 0, [[0, 1, 2]]), (fv 0 0 1, [[3, 4, 5], [6, 7, 8]]), (fv 0 0 2, [[9, 10, 11]])]"
    by (simp add: same_key_def vec_of_fv upt_threes)
  have h3: "edge_pass ?t ?es
        = Inr (\<lparr>bm_verts = concat (map (prism_verts ?t) ?es), bm_faces = pass_faces 3 0 ?es\<rparr>,
               [(fv 0 0 0, [[0, 1, 2]]), (fv 0 0 1, [[3, 4, 5], [6, 7, 8]]),
                (fv 0 0 2, [[9, 10, 11]])])"
    unfolding triangle_pass pc by (rule refl)
  have h4: "(fv 0 0 1, [[3, 4, 5], [6, 7, 8]])
        \<in> set [(fv 0 0 0, [[0, 1, 2]]), (fv 0 0 1, [[3, 4, 5], [6, 7, 8]]),
                (fv 0 0 2, [[9, 10, 11]])]"
    by simp
  have h5: "1 < length [[3, 4, 5], [6, 7, 8 :: nat]]" by simp
  show ?thesis
    using multi_profile_corner_reaches_hull [OF h1 h2 h3 h4 h5, of "\<lambda>bm vs. [vs]" bmesh_new] h1 pc
    by (simp add: create_profile_def)
qed

text \<open>
  C10 as stated fails: the round profile of no segments is the empty list, the corner
  shared by two edges then has two instances and no vertex, and the size test leaves it
  uncapped.
\<close>

theorem zero_segments_corner_uncapped:
  "create_profile ''ROUND'' 1 0 = Inr []
   \<and> edge_pass [] [[fv 0 0 0, fv 0 0 1], [fv 0 0 1, fv 0 0 2]]
       = Inr (bmesh_new, [(fv 0 0 0, [[]]), (fv 0 0 1, [[], []]), (fv 0 0 2, [[]])])
   \<and> length (concat [[], [] :: nat list]) = 0
   \<and> close_corner_with_convex_hull (\<lambda>bm vs. [vs]) bmesh_new [[], []] = bmesh_new
   \<and> corner_step (\<lambda>bm vs. [vs]) (fv 0 0 1, [[], []]) bmesh_new = bmesh_new"
proof -
  have ok: "length ([] :: vec list) = 0 \<or> 3 \<le> length ([] :: vec list)" by simp
  have "edge_pass [] [[fv 0 0 0, fv 0 0 1], [fv 0 0 1, fv 0 0 2]]
       = Inr (bmesh_new, [(fv 0 0 0, [[]]), (fv 0 0 1, [[], []]), (fv 0 0 2, [[]])])"
    unfolding edge_pass_closed [OF ok]
    by (simp add: bmesh_new_def prism_verts_def edge_profiles_eq prism_faces_def
          same_key_def vec_of_fv)
  then show ?thesis
    by (simp add: create_profile_def close_corner_with_convex_hull_def corner_step_few)
qed

section \<open>Zero-length edges\<close>




lemma pass_corners_append:
  "pass_corners n n0 (es1 @ es2) pac
     = pass_corners n (n0 + length (concat (map (prism_verts ps) es1))) es2
         (pass_corners n n0 es1 pac)"
  if "n = length ps"
  using that
proof (induction es1 arbitrary: n0 pac)
  case Nil
  then show ?case by simp
next
  case (Cons e es1)
  then show ?case
    by (simp add: length_prism_verts add.assoc)
qed




lemma fvmul_one: "fvmul (FVector (Float False 1) (Float False 1) (Float False 1)) v = v"
proof (cases v)
  case (FVector a b c)
  then show ?thesis by (cases a; cases b; cases c) simp
qed



lemma corner_step_appends:
  "\<exists>caps. corner_step hull_op c b = b\<lparr>bm_faces := bm_faces b @ caps\<rparr>"
proof (cases c)
  case (Pair k cps)
  show ?thesis
  proof (cases "1 < length cps \<and> 3 < length (concat cps)")
    case True
    then have "corner_step hull_op c b
         = b\<lparr>bm_faces := bm_faces b @ (if coincident b (concat cps) then []
                                        else hull_op b (concat cps))\<rparr>"
      by (simp add: Pair corner_step.simps close_corner_with_convex_hull_def convex_hull_def)
    then show ?thesis by blast
  next
    case False
    then have "corner_step hull_op c b = b\<lparr>bm_faces := bm_faces b @ []\<rparr>"
      by (auto simp: Pair corner_step.simps close_corner_with_convex_hull_def)
    then show ?thesis by blast
  qed
qed



section \<open>Mesh assembly: outcome and frame\<close>

lemma extrude_with_refused:
  "\<not> transform_apply_ok (w\<lparr>mesh_obj := (mesh_obj w)\<lparr>obj_selected := True\<rparr>\<rparr>) \<Longrightarrow>
   extrude_with gen transform_apply_ok hull_op remove_doubles w profile_type psize segments
     delete_original_faces merge_threshold
   = (Some (RuntimeError ''transform_apply''),
      w\<lparr>mesh_obj := (mesh_obj w)\<lparr>obj_selected := True\<rparr>\<rparr>, None)"
  by (simp add: extrude_with_def apply_object_scale_def Let_def)

lemma extrude_with_applied:
  assumes "transform_apply_ok (w\<lparr>mesh_obj := (mesh_obj w)\<lparr>obj_selected := True\<rparr>\<rparr>)"
  shows "extrude_with gen transform_apply_ok hull_op remove_doubles w profile_type psize segments
     delete_original_faces merge_threshold
   = (let w1 = snd (apply_object_scale transform_apply_ok w);
          w2 = (if delete_original_faces then delete_faces w1 else w1)
      in case gen profile_type psize segments of
           Inl e \<Rightarrow> (Some e, w2, Some bmesh_new)
         | Inr profile_shape \<Rightarrow>
             (case edge_pass profile_shape (bm_edges (obj_data (mesh_obj w2))) of
                Inl e \<Rightarrow> (Some e, w2, Some bmesh_new)
              | Inr (new_bm, corners) \<Rightarrow>
                  (None, w2, Some (remove_doubles (corner_pass hull_op corners new_bm)
                                     merge_threshold))))"
  using assms
  by (simp add: extrude_with_def apply_object_scale_def Let_def merge_prism_vertices_def
        split: sum.splits prod.splits)

text \<open>
  C8 (amended). The build is not atomic. When the scale has been applied and the generator
  raises, the call ends with the generator's exception, the input object has had its scale
  applied and, if requested, its faces deleted, and the new object is linked with an empty
  mesh. The same holds when the generator returns and the loop over the edges ends with
  the exception of a refused face. When the call returns without an exception, the scale
  has been applied, the generator and the loop over the edges have returned, and the mesh
  of the new object is the weld of the mesh after the edge loop and the corner loop.
\<close>

theorem build_outcome:
  "let w1 = w\<lparr>mesh_obj := (mesh_obj w)\<lparr>obj_selected := True\<rparr>\<rparr>;
       r = extrude_with gen transform_apply_ok hull_op remove_doubles w profile_type psize
             segments delete_original_faces merge_threshold;
       w2 = (if delete_original_faces
             then delete_faces (snd (apply_object_scale transform_apply_ok w))
             else snd (apply_object_scale transform_apply_ok w));
       bm = bm_edges (obj_data (mesh_obj w2))
   in (transform_apply_ok w1 \<and> gen profile_type psize segments = Inl e
         \<longrightarrow> r = (Some e, w2, Some bmesh_new))
      \<and> (transform_apply_ok w1 \<and> gen profile_type psize segments = Inr profile_shape
           \<and> edge_pass profile_shape bm = Inl e
         \<longrightarrow> r = (Some e, w2, Some bmesh_new))
      \<and> (fst r = None
         \<longrightarrow> transform_apply_ok w1
             \<and> (\<exists>profile new_bm corners.
                   gen profile_type psize segments = Inr profile
                   \<and> edge_pass profile bm = Inr (new_bm, corners)
                   \<and> r = (None, w2,
                          Some (remove_doubles (corner_pass hull_op corners new_bm)
                                  merge_threshold))))"
proof (cases "transform_apply_ok (w\<lparr>mesh_obj := (mesh_obj w)\<lparr>obj_selected := True\<rparr>\<rparr>)")
  case True
  show ?thesis
    unfolding extrude_with_applied [where transform_apply_ok = transform_apply_ok and w = w, OF True]
    by (auto simp: Let_def True split: sum.splits prod.splits)
next
  case False
  show ?thesis
    unfolding extrude_with_refused [where transform_apply_ok = transform_apply_ok and w = w, OF False]
    by (simp add: Let_def False)
qed

text \<open>
  C8 as stated fails: with an unknown profile tag the call raises, and it leaves the new
  object linked with an empty mesh and the input without its face.
\<close>

theorem failed_build_leaves_object:
  "extrude_profiles_along_edges (\<lambda>w. True) (\<lambda>bm vs. []) (\<lambda>m t. m)
     \<lparr>mesh_obj = \<lparr>obj_scale = FVector (Float False 1) (Float False 1) (Float False 1),
                  obj_data = \<lparr>verts = [fv 0 0 0, fv 1 0 0, fv 0 1 0],
                              edges = [[0, 1], [1, 2], [2, 0]], faces = [[0, 1, 2]]\<rparr>,
                  obj_selected = True\<rparr>,
      others = []\<rparr>
     ''HEXAGON'' (1 / 20) 12 True (1 / 10000)
   = (Some (ValueError ''Unsupported profile type''),
      \<lparr>mesh_obj = \<lparr>obj_scale = FVector (Float False 1) (Float False 1) (Float False 1),
                   obj_data = \<lparr>verts = [fv 0 0 0, fv 1 0 0, fv 0 1 0],
                               edges = [[0, 1], [1, 2], [2, 0]], faces = []\<rparr>,
                   obj_selected = True\<rparr>,
       others = []\<rparr>,
      Some \<lparr>bm_verts = [], bm_faces = []\<rparr>)"
  by (simp add: extrude_profiles_along_edges_def extrude_with_def Let_def create_profile_def
        apply_object_scale_def transform_apply_def delete_faces_def bmesh_new_def fvmul_one)

text \<open>
  The three cases: the generator without the triangle on a mesh without edges, the first
  module's generator on the same mesh, and the round profile of two segments on a mesh of
  one edge.
\<close>

theorem build_outcome_witness:
  "extrude_with cwp_create_profile (\<lambda>w. True) (\<lambda>bm vs. []) (\<lambda>m t. m)
     \<lparr>mesh_obj = \<lparr>obj_scale = FVector (Float False 1) (Float False 1) (Float False 1),
                  obj_data = \<lparr>verts = [fv 0 0 0, fv 0 0 1], edges = [], faces = []\<rparr>,
                  obj_selected = False\<rparr>,
      others = []\<rparr>
     ''TRIANGLE'' 1 3 False (1 / 10000)
   = (Some (ValueError ''Unsupported profile type''),
      \<lparr>mesh_obj = \<lparr>obj_scale = FVector (Float False 1) (Float False 1) (Float False 1),
                   obj_data = \<lparr>verts = [fv 0 0 0, fv 0 0 1], edges = [], faces = []\<rparr>,
                   obj_selected = True\<rparr>,
       others = []\<rparr>,
      Some bmesh_new)
   \<and> (\<exists>profile new_bm corners.
         create_profile ''TRIANGLE'' 1 3 = Inr profile
         \<and> edge_pass profile [] = Inr (new_bm, corners)
         \<and> extrude_with create_profile (\<lambda>w. True) (\<lambda>bm vs. []) (\<lambda>m t. m)
             \<lparr>mesh_obj = \<lparr>obj_scale = FVector (Float False 1) (Float False 1) (Float False 1),
                          obj_data = \<lparr>verts = [fv 0 0 0, fv 0 0 1], edges = [], faces = []\<rparr>,
                          obj_selected = False\<rparr>,
              others = []\<rparr>
             ''TRIANGLE'' 1 3 False (1 / 10000)
           = (None,
              \<lparr>mesh_obj = \<lparr>obj_scale = FVector (Float False 1) (Float False 1) (Float False 1),
                           obj_data = \<lparr>verts = [fv 0 0 0, fv 0 0 1], edges = [], faces = []\<rparr>,
                           obj_selected = True\<rparr>,
               others = []\<rparr>,
              Some (corner_pass (\<lambda>bm vs. []) corners new_bm)))
   \<and> extrude_with create_profile (\<lambda>w. True) (\<lambda>bm vs. []) (\<lambda>m t. m)
       \<lparr>mesh_obj = \<lparr>obj_scale = FVector (Float False 1) (Float False 1) (Float False 1),
                    obj_data = \<lparr>verts = [fv 0 0 0, fv 0 0 1], edges = [[0, 1]], faces = []\<rparr>,
                    obj_selected = False\<rparr>,
        others = []\<rparr>
       ''ROUND'' 1 2 False (1 / 10000)
     = (Some (ValueError ''faces.new(verts): face already exists''),
        \<lparr>mesh_obj = \<lparr>obj_scale = FVector (Float False 1) (Float False 1) (Float False 1),
                     obj_data = \<lparr>verts = [fv 0 0 0, fv 0 0 1], edges = [[0, 1]], faces = []\<rparr>,
                     obj_selected = True\<rparr>,
         others = []\<rparr>,
        Some bmesh_new)"
proof -
  let ?w = "\<lparr>mesh_obj = \<lparr>obj_scale = FVector (Float False 1) (Float False 1) (Float False 1),
                  obj_data = \<lparr>verts = [fv 0 0 0, fv 0 0 1], edges = [], faces = []\<rparr>,
                  obj_selected = False\<rparr>,
      others = []\<rparr>"
  let ?v = "\<lparr>mesh_obj = \<lparr>obj_scale = FVector (Float False 1) (Float False 1) (Float False 1),
                  obj_data = \<lparr>verts = [fv 0 0 0, fv 0 0 1], edges = [[0, 1]], faces = []\<rparr>,
                  obj_selected = False\<rparr>,
      others = []\<rparr>"
  let ?v' = "\<lparr>mesh_obj = \<lparr>obj_scale = FVector (Float False 1) (Float False 1) (Float False 1),
                  obj_data = \<lparr>verts = [fv 0 0 0, fv 0 0 1], edges = [[0, 1]], faces = []\<rparr>,
                  obj_selected = True\<rparr>,
      others = []\<rparr>"
  have av: "snd (apply_object_scale (\<lambda>w. True) ?v) = ?v'"
    by (simp add: apply_object_scale_def transform_apply_def fvmul_one)
  have u: "[0..<2] = [0, 1]" by (simp add: upt_rec)
  have g2: "create_profile ''ROUND'' 1 2 = Inr [Vector 1 0 0, Vector (- 1) 0 0]"
    by (simp add: create_profile_def u)
  have bv: "bm_edges \<lparr>verts = [fv 0 0 0, fv 0 0 1], edges = [[0, 1]], faces = []\<rparr>
            = [[fv 0 0 0, fv 0 0 1]]"
    by (simp add: bm_edges_def)
  have p2: "edge_pass [Vector 1 0 0, Vector (- 1) 0 0] [[fv 0 0 0, fv 0 0 1]]
            = Inl (ValueError ''faces.new(verts): face already exists'')"
    by (simp add: edge_pass_def process_edge_two_points)
  have three: "extrude_with create_profile (\<lambda>w. True) (\<lambda>bm vs. []) (\<lambda>m t. m) ?v
               ''ROUND'' 1 2 False (1 / 10000)
             = (Some (ValueError ''faces.new(verts): face already exists''), ?v', Some bmesh_new)"
    using build_outcome [of ?v create_profile "\<lambda>w. True" "\<lambda>bm vs. []" "\<lambda>m t. m"
        "''ROUND''" 1 2 False "1 / 10000" "ValueError ''faces.new(verts): face already exists''"
        "[Vector 1 0 0, Vector (- 1) 0 0]"]
    unfolding Let_def av using g2 p2 by (simp add: bv [unfolded One_nat_def])
  let ?w' = "\<lparr>mesh_obj = \<lparr>obj_scale = FVector (Float False 1) (Float False 1) (Float False 1),
                  obj_data = \<lparr>verts = [fv 0 0 0, fv 0 0 1], edges = [], faces = []\<rparr>,
                  obj_selected = True\<rparr>,
      others = []\<rparr>"
  have a: "snd (apply_object_scale (\<lambda>w. True) ?w) = ?w'"
    by (simp add: apply_object_scale_def transform_apply_def fvmul_one)
  have g: "cwp_create_profile ''TRIANGLE'' 1 3 = Inl (ValueError ''Unsupported profile type'')"
    by (simp add: cwp_create_profile_def)
  have n: "fst (extrude_with create_profile (\<lambda>w. True) (\<lambda>bm vs. []) (\<lambda>m t. m) ?w
                  ''TRIANGLE'' 1 3 False (1 / 10000)) = None"
    by (simp add: extrude_with_def apply_object_scale_def create_profile_def edge_pass_def
          bm_edges_def transform_apply_def Let_def)
  have b: "bm_edges \<lparr>verts = [fv 0 0 0, fv 0 0 1], edges = [], faces = []\<rparr> = []"
    by (simp add: bm_edges_def)
  have one: "extrude_with cwp_create_profile (\<lambda>w. True) (\<lambda>bm vs. []) (\<lambda>m t. m) ?w
               ''TRIANGLE'' 1 3 False (1 / 10000)
             = (Some (ValueError ''Unsupported profile type''), ?w', Some bmesh_new)"
    using build_outcome [of ?w cwp_create_profile "\<lambda>w. True" "\<lambda>bm vs. []" "\<lambda>m t. m"
        "''TRIANGLE''" 1 3 False "1 / 10000" "ValueError ''Unsupported profile type''"]
    unfolding Let_def a using g by simp
  have two: "\<exists>profile new_bm corners.
         create_profile ''TRIANGLE'' 1 3 = Inr profile
         \<and> edge_pass profile [] = Inr (new_bm, corners)
         \<and> extrude_with create_profile (\<lambda>w. True) (\<lambda>bm vs. []) (\<lambda>m t. m) ?w
             ''TRIANGLE'' 1 3 False (1 / 10000)
           = (None, ?w', Some (corner_pass (\<lambda>bm vs. []) corners new_bm))"
    using build_outcome [of ?w create_profile "\<lambda>w. True" "\<lambda>bm vs. []" "\<lambda>m t. m"
        "''TRIANGLE''" 1 3 False "1 / 10000" "ValueError []" "[]"]
    unfolding Let_def a using n by (simp add: b)
  from one two three show ?thesis by blast
qed

text \<open>
  C9. After every call, failed or not, the input mesh has the edges it had, the faces it
  had (none, when the deletion of the original faces was requested and the scale could be
  applied) and as many vertices as it had; the vertices' coordinates are the old ones
  multiplied by the object's scale when the scale was applied, so that their positions
  under the object's scale are unchanged. A call that returns without an exception has
  linked a new object, whose mesh is a value of its own.
\<close>

theorem input_mesh_frame:
  "let r = extrude_with gen transform_apply_ok hull_op remove_doubles w profile_type psize
             segments delete_original_faces merge_threshold;
       ok = transform_apply_ok (w\<lparr>mesh_obj := (mesh_obj w)\<lparr>obj_selected := True\<rparr>\<rparr>);
       ob = mesh_obj w;
       ob' = mesh_obj (fst (snd r))
   in edges (obj_data ob') = edges (obj_data ob)
      \<and> faces (obj_data ob')
          = (if delete_original_faces \<and> ok then [] else faces (obj_data ob))
      \<and> length (verts (obj_data ob')) = length (verts (obj_data ob))
      \<and> verts (obj_data ob')
          = (if ok then map (fvmul (obj_scale ob)) (verts (obj_data ob)) else verts (obj_data ob))
      \<and> map (fvmul (obj_scale ob')) (verts (obj_data ob'))
          = map (fvmul (obj_scale ob)) (verts (obj_data ob))
      \<and> (fst r = None \<longrightarrow> snd (snd r) \<noteq> None)"
proof (cases "transform_apply_ok (w\<lparr>mesh_obj := (mesh_obj w)\<lparr>obj_selected := True\<rparr>\<rparr>)")
  case True
  show ?thesis
    unfolding extrude_with_applied [where transform_apply_ok = transform_apply_ok and w = w, OF True]
    by (auto simp: Let_def True apply_object_scale_def transform_apply_def delete_faces_def
          fvmul_one split: sum.splits prod.splits)
next
  case False
  show ?thesis
    unfolding extrude_with_refused [where transform_apply_ok = transform_apply_ok and w = w, OF False]
    by (simp add: Let_def False)
qed

text \<open>
  A triangle without edges, scaled by two, with the deletion of its face requested.
\<close>

theorem input_mesh_frame_witness:
  "(let r = extrude_profiles_along_edges (\<lambda>w. True) (\<lambda>bm vs. []) (\<lambda>m t. m)
             \<lparr>mesh_obj = \<lparr>obj_scale = fv 2 2 2,
                          obj_data = \<lparr>verts = [fv 0 0 0, fv 1 0 0, fv 0 1 0],
                                      edges = [], faces = [[0, 1, 2]]\<rparr>,
                          obj_selected = False\<rparr>,
              others = []\<rparr>
             ''SQUARE'' 1 3 True (1 / 10000)
    in fst r = None
       \<and> snd (snd r) \<noteq> None
       \<and> edges (obj_data (mesh_obj (fst (snd r)))) = []
       \<and> faces (obj_data (mesh_obj (fst (snd r)))) = []
       \<and> length (verts (obj_data (mesh_obj (fst (snd r))))) = 3)"
proof -
  let ?w = "\<lparr>mesh_obj = \<lparr>obj_scale = fv 2 2 2,
                          obj_data = \<lparr>verts = [fv 0 0 0, fv 1 0 0, fv 0 1 0],
                                      edges = [], faces = [[0, 1, 2]]\<rparr>,
                          obj_selected = False\<rparr>,
              others = []\<rparr>"
  let ?r = "extrude_with create_profile (\<lambda>w. True) (\<lambda>bm vs. []) (\<lambda>m t. m) ?w
             ''SQUARE'' 1 3 True (1 / 10000)"
  have n: "fst ?r = None"
    by (simp add: extrude_with_def apply_object_scale_def create_profile_def edge_pass_def
          bm_edges_def transform_apply_def delete_faces_def Let_def)
  have "snd (snd ?r) \<noteq> None
       \<and> edges (obj_data (mesh_obj (fst (snd ?r)))) = []
       \<and> faces (obj_data (mesh_obj (fst (snd ?r)))) = []
       \<and> length (verts (obj_data (mesh_obj (fst (snd ?r))))) = 3"
    using input_mesh_frame [of create_profile "\<lambda>w. True" "\<lambda>bm vs. []" "\<lambda>m t. m" ?w
        "''SQUARE''" 1 3 True "1 / 10000"] n
    unfolding Let_def by simp
  with n show ?thesis
    unfolding extrude_profiles_along_edges_def Let_def by blast
qed

section \<open>Junction closer: the caps of a build\<close>


lemma corner_step_verts: "bm_verts (corner_step hull_op c b) = bm_verts b"
proof -
  obtain caps where c: "corner_step hull_op c b = b\<lparr>bm_faces := bm_faces b @ caps\<rparr>"
    using corner_step_appends by blast
  show ?thesis by (simp add: c)
qed












end
